theory Spec2Isabelle
  imports Complex_Main "HOL-Library.AList" "HOL-Library.Sublist" "HOL-Library.Log_Nat"
begin

section \<open>Python values\<close>

text \<open>
  The service works on decoded JSON: whatever \<^verbatim>\<open>response.json()\<close> returned, and the
  dictionaries it builds from it. A string is a list of characters, each read as one code
  point below 256. A number of a JSON document is passed through as it is; a float among
  them stands for its real value. A dictionary is an association list in insertion order,
  looked up with \<open>map_of\<close>. The arithmetic of the gauge is the arithmetic of doubles
  (section Python numbers).
\<close>

datatype json =
    JNull
  | JBool bool
  | JInt int
  | JFloat real
  | JStr string
  | JList "json list"
  | JDict "(string \<times> json) list"

type_synonym json_dict = "(string \<times> json) list"

text \<open>The exceptions that the modelled functions can raise.\<close>

datatype py_error =
    KeyError
  | IndexError
  | TypeError
  | AttributeError
  | ValueError
  | ZeroDivisionError
  | OverflowError

type_synonym 'a result = "py_error + 'a"

text \<open>Sequencing of statements that may raise: the first exception ends the run.\<close>

definition bindE :: "'a result \<Rightarrow> ('a \<Rightarrow> 'b result) \<Rightarrow> 'b result" where
  "bindE m f = (case m of Inl e \<Rightarrow> Inl e | Inr x \<Rightarrow> f x)"

text \<open>
  A dictionary display \<^verbatim>\<open>{k1: v1, k2: v2, ...}\<close> stores the items left to right. A key
  that occurs twice keeps its first position and takes the last value.
\<close>

definition py_dict :: "(string \<times> json) list \<Rightarrow> json_dict" where
  "py_dict kvs = foldl (\<lambda>d (k, v). AList.update k v d) [] kvs"

text \<open>\<^verbatim>\<open>bool(v)\<close>\<close>

fun truthy :: "json \<Rightarrow> bool" where
  "truthy JNull = False"
| "truthy (JBool b) = b"
| "truthy (JInt n) = (n \<noteq> 0)"
| "truthy (JFloat r) = (r \<noteq> 0)"
| "truthy (JStr s) = (s \<noteq> [])"
| "truthy (JList xs) = (xs \<noteq> [])"
| "truthy (JDict d) = (d \<noteq> [])"

text \<open>\<^verbatim>\<open>v[k]\<close> with a string key \<open>k\<close>\<close>

fun subscript_key :: "json \<Rightarrow> string \<Rightarrow> json result" where
  "subscript_key (JDict d) k = (case map_of d k of None \<Rightarrow> Inl KeyError | Some x \<Rightarrow> Inr x)"
| "subscript_key v k = Inl TypeError"

text \<open>\<^verbatim>\<open>v[i]\<close> with an index \<open>i \<ge> 0\<close>\<close>

fun subscript_idx :: "json \<Rightarrow> nat \<Rightarrow> json result" where
  "subscript_idx (JList xs) i = (if i < length xs then Inr (xs ! i) else Inl IndexError)"
| "subscript_idx (JStr s) i = (if i < length s then Inr (JStr [s ! i]) else Inl IndexError)"
| "subscript_idx (JDict d) i = Inl KeyError"
| "subscript_idx v i = Inl TypeError"

text \<open>\<^verbatim>\<open>v.get(k, dflt)\<close>\<close>

fun dict_get :: "json \<Rightarrow> string \<Rightarrow> json \<Rightarrow> json result" where
  "dict_get (JDict d) k dflt = Inr (case map_of d k of None \<Rightarrow> dflt | Some x \<Rightarrow> x)"
| "dict_get v k dflt = Inl AttributeError"

text \<open>\<^verbatim>\<open>len(v)\<close>\<close>

fun py_len :: "json \<Rightarrow> nat result" where
  "py_len (JList xs) = Inr (length xs)"
| "py_len (JStr s) = Inr (length s)"
| "py_len (JDict d) = Inr (length (remdups (map fst d)))"
| "py_len v = Inl TypeError"

text \<open>\<^verbatim>\<open>k in v\<close> with a string \<open>k\<close>\<close>

fun py_contains :: "string \<Rightarrow> json \<Rightarrow> bool result" where
  "py_contains k (JDict d) = Inr (map_of d k \<noteq> None)"
| "py_contains k (JList xs) = Inr (JStr k \<in> set xs)"
| "py_contains k (JStr s) = Inr (sublist k s)"
| "py_contains k v = Inl TypeError"

text \<open>
  \<^verbatim>\<open>str.strip()\<close> removes white space from both ends. Below code point 256 the white
  space characters are 9 to 13, 28 to 32, 133 and 160.
\<close>

definition py_isspace :: "char \<Rightarrow> bool" where
  "py_isspace c = (of_char c \<in> {9, 10, 11, 12, 13, 28, 29, 30, 31, 32, 133, 160 :: nat})"

definition strip :: "string \<Rightarrow> string" where
  "strip s = rev (dropWhile py_isspace (rev (dropWhile py_isspace s)))"

text \<open>
  \<^verbatim>\<open>str.title()\<close> on the letters a to z and A to Z: a letter that follows a letter is
  put in lower case, any other letter in upper case, and every other character is kept.
\<close>

definition lower_letters :: string where
  "lower_letters = ''abcdefghijklmnopqrstuvwxyz''"

definition upper_letters :: string where
  "upper_letters = ''ABCDEFGHIJKLMNOPQRSTUVWXYZ''"

definition to_upper :: "char \<Rightarrow> char" where
  "to_upper c = (case map_of (zip lower_letters upper_letters) c of None \<Rightarrow> c | Some u \<Rightarrow> u)"

definition to_lower :: "char \<Rightarrow> char" where
  "to_lower c = (case map_of (zip upper_letters lower_letters) c of None \<Rightarrow> c | Some l \<Rightarrow> l)"

fun title_from :: "bool \<Rightarrow> string \<Rightarrow> string" where
  "title_from prev [] = []"
| "title_from prev (c # cs) =
     (if c \<in> set lower_letters \<or> c \<in> set upper_letters
      then (if prev then to_lower c else to_upper c) # title_from True cs
      else c # title_from False cs)"

definition py_title :: "string \<Rightarrow> string" where
  "py_title s = title_from False s"

section \<open>WeatherCodeMapper\<close>

definition WMO_CODES :: "(int \<times> string \<times> string) list" where
  "WMO_CODES =
    [(0, ''Clear sky'', ''clear''),
     (1, ''Mainly clear'', ''clear''),
     (2, ''Partly cloudy'', ''cloudy''),
     (3, ''Overcast'', ''cloudy''),
     (45, ''Fog'', ''fog''),
     (48, ''Depositing rime fog'', ''fog''),
     (51, ''Light drizzle'', ''rain''),
     (53, ''Moderate drizzle'', ''rain''),
     (55, ''Dense drizzle'', ''rain''),
     (56, ''Light freezing drizzle'', ''rain''),
     (57, ''Dense freezing drizzle'', ''rain''),
     (61, ''Slight rain'', ''rain''),
     (63, ''Moderate rain'', ''rain''),
     (65, ''Heavy rain'', ''rain''),
     (66, ''Light freezing rain'', ''rain''),
     (67, ''Heavy freezing rain'', ''rain''),
     (71, ''Slight snow fall'', ''snow''),
     (73, ''Moderate snow fall'', ''snow''),
     (75, ''Heavy snow fall'', ''snow''),
     (77, ''Snow grains'', ''snow''),
     (80, ''Slight rain showers'', ''rain''),
     (81, ''Moderate rain showers'', ''rain''),
     (82, ''Violent rain showers'', ''rain''),
     (85, ''Slight snow showers'', ''snow''),
     (86, ''Heavy snow showers'', ''snow''),
     (95, ''Thunderstorm'', ''storm''),
     (96, ''Thunderstorm with slight hail'', ''storm''),
     (99, ''Thunderstorm with heavy hail'', ''storm'')]"

text \<open>
  \<^verbatim>\<open>WMO_CODES.get(code, ("Unknown", "unknown"))\<close>. The keys of the table are integers; a
  key is found by hash and equality, so \<^verbatim>\<open>True\<close> finds 1 and \<^verbatim>\<open>2.0\<close> finds 2, a
  string or \<^verbatim>\<open>None\<close> finds nothing, and a list or a dictionary cannot be hashed.
\<close>

fun wmo_get :: "json \<Rightarrow> (string \<times> string) result" where
  "wmo_get (JInt n) =
     Inr (case map_of WMO_CODES n of None \<Rightarrow> (''Unknown'', ''unknown'') | Some p \<Rightarrow> p)"
| "wmo_get (JBool b) =
     Inr (case map_of WMO_CODES (if b then 1 else 0) of
            None \<Rightarrow> (''Unknown'', ''unknown'') | Some p \<Rightarrow> p)"
| "wmo_get (JFloat r) =
     Inr (if of_int \<lfloor>r\<rfloor> = r
          then (case map_of WMO_CODES \<lfloor>r\<rfloor> of None \<Rightarrow> (''Unknown'', ''unknown'') | Some p \<Rightarrow> p)
          else (''Unknown'', ''unknown''))"
| "wmo_get JNull = Inr (''Unknown'', ''unknown'')"
| "wmo_get (JStr s) = Inr (''Unknown'', ''unknown'')"
| "wmo_get (JList xs) = Inl TypeError"
| "wmo_get (JDict d) = Inl TypeError"

definition get_description :: "json \<Rightarrow> string result" where
  "get_description code = bindE (wmo_get code) (\<lambda>p. Inr (fst p))"

definition get_condition :: "json \<Rightarrow> string result" where
  "get_condition code = bindE (wmo_get code) (\<lambda>p. Inr (snd p))"

section \<open>Python numbers\<close>

text \<open>
  A Python \<^verbatim>\<open>float\<close> is an IEEE 754 double: \<open>Finite r\<close> is the double whose value is
  the real number \<open>r\<close> (\<open>Finite 0\<close> is \<^verbatim>\<open>0.0\<close>), \<open>NegZero\<close> is \<^verbatim>\<open>-0.0\<close>, and there are the
  two infinities and \<^verbatim>\<open>nan\<close>. A Python \<^verbatim>\<open>int\<close> is an integer of any size. A number handed
  to a function is one or the other.
\<close>

datatype pyfloat = Finite real | NegZero | PosInf | NegInf | NaN

datatype pynum = PyInt int | PyFloat pyfloat

text \<open>
  Rounding to the nearest double, ties to the even significand. For \<open>a > 0\<close> the
  \<open>binade\<close> is the exponent \<open>e\<close> with \<open>2^e \<le> a < 2^(e+1)\<close>; a double has 53 significant
  bits, so the doubles near \<open>a\<close> are the multiples of \<open>2^(e-52)\<close>, and of \<open>2^(-1074)\<close>
  below the normal range.
\<close>

definition binade :: "real \<Rightarrow> int" where
  "binade a = (if 1 \<le> a then bitlen \<lfloor>a\<rfloor> - 1 else - bitlen (\<lceil>1 / a\<rceil> - 1))"

definition round_half_even :: "real \<Rightarrow> int" where
  "round_half_even y =
     (let f = \<lfloor>y\<rfloor>; d = y - of_int f
      in if d < 1 / 2 then f
         else if 1 / 2 < d then f + 1
         else if even f then f else f + 1)"

definition ulp :: "real \<Rightarrow> real" where
  "ulp x = 2 powi (max (binade \<bar>x\<bar>) (- 1022) - 52)"

definition round_real :: "real \<Rightarrow> real" where
  "round_real x = (if x = 0 then 0 else of_int (round_half_even (x / ulp x)) * ulp x)"

text \<open>A result whose magnitude reaches \<open>2^1024\<close> after rounding is an infinity.\<close>

definition double_limit :: real where
  "double_limit = 2 powi 1024"

definition round_double :: "real \<Rightarrow> pyfloat" where
  "round_double x =
     (let r = round_real x
      in if double_limit \<le> r then PosInf
         else if r \<le> - double_limit then NegInf
         else Finite r)"

definition fval :: "pyfloat \<Rightarrow> real" where
  "fval f = (case f of Finite r \<Rightarrow> r | _ \<Rightarrow> 0)"

definition is_finite :: "pyfloat \<Rightarrow> bool" where
  "is_finite f = (case f of Finite r \<Rightarrow> True | NegZero \<Rightarrow> True | _ \<Rightarrow> False)"

definition sign_bit :: "pyfloat \<Rightarrow> bool" where
  "sign_bit f =
     (case f of Finite r \<Rightarrow> r < 0 | NegZero \<Rightarrow> True | NegInf \<Rightarrow> True | _ \<Rightarrow> False)"

text \<open>
  The arithmetic of doubles. The sign of a zero result is not kept: the functions
  modelled here compare such a result or pass it to \<^verbatim>\<open>int\<close>, and neither sees the sign.
\<close>

definition float_sub :: "pyfloat \<Rightarrow> pyfloat \<Rightarrow> pyfloat" where
  "float_sub a b =
     (if a = NaN \<or> b = NaN then NaN
      else if is_finite a \<and> is_finite b then round_double (fval a - fval b)
      else if is_finite b then a
      else if is_finite a then (if b = PosInf then NegInf else PosInf)
      else if a = b then NaN else a)"

definition float_mul :: "pyfloat \<Rightarrow> pyfloat \<Rightarrow> pyfloat" where
  "float_mul a b =
     (if a = NaN \<or> b = NaN then NaN
      else if is_finite a \<and> is_finite b then round_double (fval a * fval b)
      else if (is_finite a \<and> fval a = 0) \<or> (is_finite b \<and> fval b = 0) then NaN
      else if sign_bit a \<noteq> sign_bit b then NegInf else PosInf)"

text \<open>\<^verbatim>\<open>a / b\<close> on doubles: Python raises where the divisor is a zero.\<close>

definition float_div :: "pyfloat \<Rightarrow> pyfloat \<Rightarrow> pyfloat result" where
  "float_div a b =
     (if is_finite b \<and> fval b = 0 then Inl ZeroDivisionError
      else Inr
        (if a = NaN \<or> b = NaN then NaN
         else if is_finite a \<and> is_finite b then round_double (fval a / fval b)
         else if is_finite a then Finite 0
         else if is_finite b then (if sign_bit a \<noteq> sign_bit b then NegInf else PosInf)
         else NaN))"

text \<open>
  \<^verbatim>\<open>float(x)\<close>, as the arithmetic applies it to an \<^verbatim>\<open>int\<close> operand that meets a
  \<^verbatim>\<open>float\<close>: an integer too large for a double raises \<^verbatim>\<open>OverflowError\<close>.
\<close>

fun to_float :: "pynum \<Rightarrow> pyfloat result" where
  "to_float (PyFloat f) = Inr f"
| "to_float (PyInt i) =
     (case round_double (of_int i) of
        PosInf \<Rightarrow> Inl OverflowError
      | NegInf \<Rightarrow> Inl OverflowError
      | f \<Rightarrow> Inr f)"

text \<open>\<^verbatim>\<open>a - b\<close>, \<^verbatim>\<open>a * b\<close> and \<^verbatim>\<open>a / b\<close> on numbers; two integers divide to the double
  nearest to the quotient.\<close>

fun py_sub :: "pynum \<Rightarrow> pynum \<Rightarrow> pynum result" where
  "py_sub (PyInt i) (PyInt j) = Inr (PyInt (i - j))"
| "py_sub a b =
     bindE (to_float a) (\<lambda>x. bindE (to_float b) (\<lambda>y. Inr (PyFloat (float_sub x y))))"

fun py_mul :: "pynum \<Rightarrow> pynum \<Rightarrow> pynum result" where
  "py_mul (PyInt i) (PyInt j) = Inr (PyInt (i * j))"
| "py_mul a b =
     bindE (to_float a) (\<lambda>x. bindE (to_float b) (\<lambda>y. Inr (PyFloat (float_mul x y))))"

fun py_truediv :: "pynum \<Rightarrow> pynum \<Rightarrow> pynum result" where
  "py_truediv (PyInt i) (PyInt j) =
     (if j = 0 then Inl ZeroDivisionError
      else (case round_double (of_int i / of_int j) of
              PosInf \<Rightarrow> Inl OverflowError
            | NegInf \<Rightarrow> Inl OverflowError
            | f \<Rightarrow> Inr (PyFloat f)))"
| "py_truediv a b =
     bindE (to_float a) (\<lambda>x. bindE (to_float b) (\<lambda>y.
     bindE (float_div x y) (\<lambda>q. Inr (PyFloat q))))"

text \<open>
  Comparison. An \<^verbatim>\<open>int\<close> and a \<^verbatim>\<open>float\<close> are compared by their exact values, the
  infinities lie outside all of them, and every comparison with \<^verbatim>\<open>nan\<close> is false.
\<close>

fun num_key :: "pynum \<Rightarrow> (int \<times> real) option" where
  "num_key (PyInt i) = Some (0, of_int i)"
| "num_key (PyFloat (Finite r)) = Some (0, r)"
| "num_key (PyFloat NegZero) = Some (0, 0)"
| "num_key (PyFloat PosInf) = Some (1, 0)"
| "num_key (PyFloat NegInf) = Some (- 1, 0)"
| "num_key (PyFloat NaN) = None"

definition py_lt :: "pynum \<Rightarrow> pynum \<Rightarrow> bool" where
  "py_lt a b =
     (case (num_key a, num_key b) of
        (Some (i, x), Some (j, y)) \<Rightarrow> i < j \<or> (i = j \<and> x < y)
      | _ \<Rightarrow> False)"

definition py_le :: "pynum \<Rightarrow> pynum \<Rightarrow> bool" where
  "py_le a b =
     (case (num_key a, num_key b) of
        (Some (i, x), Some (j, y)) \<Rightarrow> i < j \<or> (i = j \<and> x \<le> y)
      | _ \<Rightarrow> False)"

text \<open>\<^verbatim>\<open>int(x)\<close> cuts the fraction of a float off, towards zero.\<close>

definition py_int :: "real \<Rightarrow> int" where
  "py_int x = (if 0 \<le> x then \<lfloor>x\<rfloor> else \<lceil>x\<rceil>)"

fun py_int_of :: "pynum \<Rightarrow> int result" where
  "py_int_of (PyInt i) = Inr i"
| "py_int_of (PyFloat (Finite r)) = Inr (py_int r)"
| "py_int_of (PyFloat NegZero) = Inr 0"
| "py_int_of (PyFloat NaN) = Inl ValueError"
| "py_int_of (PyFloat f) = Inl OverflowError"

section \<open>The outside world\<close>

text \<open>
  What the service does not compute itself is a parameter of the model:
  \<^item> \<open>http_get url params\<close> is what \<^verbatim>\<open>_make_request\<close> hands back for a request: the
    decoded body, or \<open>None\<close> after a timeout, a failed request or a body that is not JSON;
  \<^item> \<open>format_value\<close> is \<^verbatim>\<open>str\<close> on a value that is not a string, inside an f-string;
  \<^item> \<open>iso_timestamp s\<close> is \<^verbatim>\<open>datetime.fromisoformat(s).timestamp()\<close>, or \<open>None\<close> where
    \<^verbatim>\<open>fromisoformat\<close> raises \<^verbatim>\<open>ValueError\<close>;
  \<^item> \<open>format_number\<close> is the text of a number inside an f-string and \<open>format_6_1f\<close> its
    text under the format \<^verbatim>\<open>6.1f\<close>.
  Logging is left out. The requests sent so far are kept in a list, oldest first, which
  every operation takes and returns.
\<close>

type_synonym request = "string \<times> json_dict"

record env =
  http_get :: "string \<Rightarrow> json_dict \<Rightarrow> json option"
  format_value :: "json \<Rightarrow> string"
  iso_timestamp :: "string \<Rightarrow> real option"
  format_number :: "pynum \<Rightarrow> string"
  format_6_1f :: "real \<Rightarrow> string"

definition geo_url :: string where
  "geo_url = ''https://geocoding-api.open-meteo.com/v1/search''"

definition weather_url :: string where
  "weather_url = ''https://api.open-meteo.com/v1/forecast''"

definition make_request ::
  "env \<Rightarrow> string \<Rightarrow> json_dict \<Rightarrow> request list \<Rightarrow> json option \<times> request list" where
  "make_request env url params reqs = (http_get env url params, reqs @ [(url, params)])"

text \<open>A value placed in an f-string.\<close>

fun py_format :: "env \<Rightarrow> json \<Rightarrow> string" where
  "py_format env (JStr s) = s"
| "py_format env v = format_value env v"

definition error_dict :: "string \<Rightarrow> json_dict" where
  "error_dict msg = py_dict [(''error'', JStr msg)]"

section \<open>WeatherService\<close>

subsection \<open>get_coordinates\<close>

text \<open>Lines 49 to 65: the answer built from the body of the geocoding response.\<close>

definition coordinates_result :: "string \<Rightarrow> json option \<Rightarrow> json_dict result" where
  "coordinates_result city data =
    (case data of
       None \<Rightarrow> Inr (error_dict (''Failed to fetch coordinates for '' @ city))
     | Some d \<Rightarrow>
         if \<not> truthy d
         then Inr (error_dict (''Failed to fetch coordinates for '' @ city))
         else
           bindE (dict_get d ''results'' JNull) (\<lambda>results.
           if \<not> truthy results
           then Inr (error_dict (''City '' @ [CHR 0x27] @ city @ [CHR 0x27] @ '' not found''))
           else
             bindE (py_len results) (\<lambda>n.
             if n = 0
             then Inr (error_dict (''City '' @ [CHR 0x27] @ city @ [CHR 0x27] @ '' not found''))
             else
               bindE (subscript_idx results 0) (\<lambda>location.
               bindE (subscript_key location ''latitude'') (\<lambda>lat.
               bindE (subscript_key location ''longitude'') (\<lambda>lon.
               bindE (subscript_key location ''name'') (\<lambda>name.
               bindE (dict_get location ''country'' (JStr ''Unknown'')) (\<lambda>country.
               bindE (dict_get location ''admin1'' (JStr [])) (\<lambda>admin1.
               Inr (py_dict
                 [(''lat'', lat), (''lon'', lon), (''name'', name),
                  (''country'', country), (''admin1'', admin1)]))))))))))"

definition get_coordinates ::
  "env \<Rightarrow> string \<Rightarrow> request list \<Rightarrow> json_dict result \<times> request list" where
  "get_coordinates env city reqs =
    (if city = [] \<or> strip city = []
     then (Inr (error_dict ''City name cannot be empty''), reqs)
     else
       let city' = strip city;
           params = py_dict
             [(''name'', JStr city'), (''count'', JInt 1),
              (''language'', JStr ''en''), (''format'', JStr ''json'')];
           (data, reqs') = make_request env geo_url params reqs
       in (coordinates_result city' data, reqs'))"

subsection \<open>get_current_weather\<close>

text \<open>Lines 117 to 166: the result built from the \<^verbatim>\<open>current\<close> block of the response.\<close>

definition current_result :: "json_dict \<Rightarrow> json \<Rightarrow> json_dict result" where
  "current_result coords current =
     bindE (dict_get current ''weather_code'' (JInt 0)) (\<lambda>weather_code.
     bindE (get_description weather_code) (\<lambda>description.
     bindE (get_condition weather_code) (\<lambda>condition.
     bindE (subscript_key (JDict coords) ''name'') (\<lambda>name.
     bindE (subscript_key (JDict coords) ''country'') (\<lambda>country.
     bindE (subscript_key (JDict coords) ''lat'') (\<lambda>lat.
     bindE (subscript_key (JDict coords) ''lon'') (\<lambda>lon.
     bindE (dict_get current ''temperature_2m'' JNull) (\<lambda>temperature.
     bindE (dict_get current ''apparent_temperature'' JNull) (\<lambda>feels_like.
     bindE (dict_get current ''relative_humidity_2m'' JNull) (\<lambda>humidity.
     bindE (dict_get current ''surface_pressure'' JNull) (\<lambda>pressure.
     bindE (dict_get current ''wind_speed_10m'' JNull) (\<lambda>wind_speed.
     bindE (dict_get current ''wind_direction_10m'' JNull) (\<lambda>wind_direction.
     bindE (dict_get current ''precipitation'' (JInt 0)) (\<lambda>precipitation.
     bindE (dict_get current ''time'' JNull) (\<lambda>timestamp.
     Inr (py_dict
       [(''location'', JDict (py_dict
           [(''name'', name),
            (''country'', country),
            (''coordinates'', JDict (py_dict [(''lat'', lat), (''lon'', lon)]))])),
        (''current'', JDict (py_dict
           [(''temperature'', temperature),
            (''feels_like'', feels_like),
            (''humidity'', humidity),
            (''pressure'', pressure),
            (''wind_speed'', wind_speed),
            (''wind_direction'', wind_direction),
            (''precipitation'', precipitation)])),
        (''weather'', JDict (py_dict
           [(''code'', weather_code),
            (''description'', JStr description),
            (''condition'', JStr condition)])),
        (''timestamp'', timestamp),
        (''name'', name),
        (''main'', JDict (py_dict
           [(''temp'', temperature),
            (''feels_like'', feels_like),
            (''humidity'', humidity),
            (''pressure'', pressure)])),
        (''weather'', JList [JDict (py_dict
           [(''main'', JStr (py_title condition)),
            (''description'', JStr description)])]),
        (''wind'', JDict (py_dict
           [(''speed'', wind_speed),
            (''deg'', wind_direction)]))]))))))))))))))))"

definition current_params :: "json \<Rightarrow> json \<Rightarrow> json_dict" where
  "current_params lat lon = py_dict
     [(''latitude'', lat),
      (''longitude'', lon),
      (''current'', JList
         [JStr ''temperature_2m'', JStr ''relative_humidity_2m'',
          JStr ''apparent_temperature'', JStr ''precipitation'', JStr ''weather_code'',
          JStr ''surface_pressure'', JStr ''wind_speed_10m'', JStr ''wind_direction_10m'']),
      (''timezone'', JStr ''auto'')]"

text \<open>Lines 114 to 166: what is returned for the body of the weather response.\<close>

definition current_response :: "env \<Rightarrow> json_dict \<Rightarrow> json \<Rightarrow> json option \<Rightarrow> json_dict result" where
  "current_response env coords name data =
    (case data of
       None \<Rightarrow> Inr (error_dict (''Failed to fetch weather data for '' @ py_format env name))
     | Some d \<Rightarrow>
         if \<not> truthy d
         then Inr (error_dict (''Failed to fetch weather data for '' @ py_format env name))
         else
           bindE (py_contains ''current'' d) (\<lambda>present.
           if \<not> present
           then Inr (error_dict (''Failed to fetch weather data for '' @ py_format env name))
           else
             bindE (subscript_key d ''current'') (\<lambda>current.
             current_result coords current)))"

definition get_current_weather ::
  "env \<Rightarrow> string \<Rightarrow> request list \<Rightarrow> json_dict result \<times> request list" where
  "get_current_weather env city reqs =
    (case get_coordinates env city reqs of
       (Inl e, reqs1) \<Rightarrow> (Inl e, reqs1)
     | (Inr coords, reqs1) \<Rightarrow>
         if map_of coords ''error'' \<noteq> None then (Inr coords, reqs1)
         else
           (case bindE (subscript_key (JDict coords) ''name'') (\<lambda>name.
                 bindE (subscript_key (JDict coords) ''lat'') (\<lambda>lat.
                 bindE (subscript_key (JDict coords) ''lon'') (\<lambda>lon.
                 Inr (name, current_params lat lon)))) of
              Inl e \<Rightarrow> (Inl e, reqs1)
            | Inr (name, params) \<Rightarrow>
                let (data, reqs2) = make_request env weather_url params reqs1
                in (current_response env coords name data, reqs2)))"

subsection \<open>get_forecast\<close>

text \<open>\<^verbatim>\<open>s.replace('Z', '+00:00')\<close>\<close>

definition replace_Z :: "string \<Rightarrow> string" where
  "replace_Z s = concat (map (\<lambda>c. if c = CHR ''Z'' then ''+00:00'' else [c]) s)"

text \<open>\<^verbatim>\<open>daily[k][i]\<close>\<close>

definition daily_at :: "json \<Rightarrow> string \<Rightarrow> nat \<Rightarrow> json result" where
  "daily_at daily k i = bindE (subscript_key daily k) (\<lambda>xs. subscript_idx xs i)"

text \<open>
  The date of a day: \<^verbatim>\<open>replace\<close> is a method of strings only, and
  \<^verbatim>\<open>fromisoformat\<close> accepts only some of them.
\<close>

definition parse_date :: "env \<Rightarrow> json \<Rightarrow> real result" where
  "parse_date env t =
    (case t of
       JStr s \<Rightarrow>
         (case iso_timestamp env (replace_Z s) of
            None \<Rightarrow> Inl ValueError
          | Some ts \<Rightarrow> Inr ts)
     | _ \<Rightarrow> Inl AttributeError)"

text \<open>Lines 202 to 238: the body of the loop, for the day \<open>i\<close>.\<close>

definition forecast_item :: "env \<Rightarrow> json \<Rightarrow> nat \<Rightarrow> json result" where
  "forecast_item env daily i =
     bindE (daily_at daily ''time'' i) (\<lambda>time_i.
     bindE (parse_date env time_i) (\<lambda>dt.
     bindE (daily_at daily ''weather_code'' i) (\<lambda>weather_code.
     bindE (get_description weather_code) (\<lambda>description.
     bindE (get_condition weather_code) (\<lambda>condition.
     bindE (daily_at daily ''temperature_2m_max'' i) (\<lambda>temp_max.
     bindE (daily_at daily ''temperature_2m_min'' i) (\<lambda>temp_min.
     bindE (daily_at daily ''precipitation_sum'' i) (\<lambda>precipitation.
     bindE (daily_at daily ''wind_speed_10m_max'' i) (\<lambda>wind_speed.
     bindE (daily_at daily ''wind_direction_10m_dominant'' i) (\<lambda>wind_direction.
     Inr (JDict (py_dict
       [(''date'', time_i),
        (''temperature'', JDict (py_dict [(''max'', temp_max), (''min'', temp_min)])),
        (''weather'', JDict (py_dict
           [(''code'', weather_code),
            (''description'', JStr description),
            (''condition'', JStr condition)])),
        (''precipitation'', precipitation),
        (''wind'', JDict (py_dict
           [(''speed'', wind_speed),
            (''direction'', wind_direction)])),
        (''dt'', JFloat dt),
        (''main'', JDict (py_dict
           [(''temp'', temp_max),
            (''temp_min'', temp_min),
            (''temp_max'', temp_max),
            (''humidity'', JInt 65)])),
        (''weather'', JList [JDict (py_dict
           [(''main'', JStr (py_title condition)),
            (''description'', JStr description)])]),
        (''wind'', JDict (py_dict [(''speed'', wind_speed)]))]))))))))))))"

text \<open>
  The loop over \<^verbatim>\<open>range(...)\<close>: each item is appended to \<open>forecast_list\<close>, and the
  first exception ends the loop.
\<close>

fun forecast_loop :: "env \<Rightarrow> json \<Rightarrow> nat list \<Rightarrow> json list \<Rightarrow> json list result" where
  "forecast_loop env daily [] forecast_list = Inr forecast_list"
| "forecast_loop env daily (i # rest) forecast_list =
     (case forecast_item env daily i of
        Inl e \<Rightarrow> Inl e
      | Inr item \<Rightarrow> forecast_loop env daily rest (forecast_list @ [item]))"

definition forecast_params :: "json \<Rightarrow> json \<Rightarrow> int \<Rightarrow> json_dict" where
  "forecast_params lat lon days = py_dict
     [(''latitude'', lat),
      (''longitude'', lon),
      (''daily'', JList
         [JStr ''temperature_2m_max'', JStr ''temperature_2m_min'', JStr ''weather_code'',
          JStr ''precipitation_sum'', JStr ''wind_speed_10m_max'',
          JStr ''wind_direction_10m_dominant'']),
      (''timezone'', JStr ''auto''),
      (''forecast_days'', JInt days)]"

text \<open>Lines 198 to 254: the result built from the \<^verbatim>\<open>daily\<close> block of the response.\<close>

definition forecast_result :: "env \<Rightarrow> json_dict \<Rightarrow> int \<Rightarrow> json \<Rightarrow> json_dict result" where
  "forecast_result env coords days daily =
     bindE (subscript_key daily ''time'') (\<lambda>times.
     bindE (py_len times) (\<lambda>n.
     bindE (forecast_loop env daily [0..<nat (min days (int n))] []) (\<lambda>forecast_list.
     bindE (subscript_key (JDict coords) ''name'') (\<lambda>name.
     bindE (subscript_key (JDict coords) ''country'') (\<lambda>country.
     Inr (py_dict
       [(''location'', JDict (py_dict [(''name'', name), (''country'', country)])),
        (''forecast'', JList forecast_list),
        (''list'', JList forecast_list),
        (''city'', JDict (py_dict [(''name'', name)]))]))))))"

text \<open>Lines 195 to 254: what is returned for the body of the forecast response.\<close>

definition forecast_response ::
  "env \<Rightarrow> json_dict \<Rightarrow> json \<Rightarrow> int \<Rightarrow> json option \<Rightarrow> json_dict result" where
  "forecast_response env coords name days data =
    (case data of
       None \<Rightarrow> Inr (error_dict (''Failed to fetch forecast data for '' @ py_format env name))
     | Some d \<Rightarrow>
         if \<not> truthy d
         then Inr (error_dict (''Failed to fetch forecast data for '' @ py_format env name))
         else
           bindE (py_contains ''daily'' d) (\<lambda>present.
           if \<not> present
           then Inr (error_dict (''Failed to fetch forecast data for '' @ py_format env name))
           else
             bindE (subscript_key d ''daily'') (\<lambda>daily.
             forecast_result env coords days daily)))"

definition get_forecast ::
  "env \<Rightarrow> string \<Rightarrow> int \<Rightarrow> request list \<Rightarrow> json_dict result \<times> request list" where
  "get_forecast env city days reqs =
    (case get_coordinates env city reqs of
       (Inl e, reqs1) \<Rightarrow> (Inl e, reqs1)
     | (Inr coords, reqs1) \<Rightarrow>
         if map_of coords ''error'' \<noteq> None then (Inr coords, reqs1)
         else if days < 1 \<or> days > 7
         then (Inr (error_dict ''Days must be between 1 and 7''), reqs1)
         else
           (case bindE (subscript_key (JDict coords) ''name'') (\<lambda>name.
                 bindE (subscript_key (JDict coords) ''lat'') (\<lambda>lat.
                 bindE (subscript_key (JDict coords) ''lon'') (\<lambda>lon.
                 Inr (name, forecast_params lat lon days)))) of
              Inl e \<Rightarrow> (Inl e, reqs1)
            | Inr (name, params) \<Rightarrow>
                let (data, reqs2) = make_request env weather_url params reqs1
                in (forecast_response env coords name days data, reqs2)))"

subsection \<open>create_temp_bar\<close>

text \<open>
  The characters of the rendered text: those below code point 256, and the glyphs of the
  gauge and of the graph (U+25CF, U+2593, U+2592, U+2591, U+2500).
\<close>

datatype glyph = Ch char | Bullet | DarkShade | MediumShade | LightShade | Dash

definition text_of :: "string \<Rightarrow> glyph list" where
  "text_of s = map Ch s"

definition bar_length :: nat where
  "bar_length = 50"

text \<open>Lines 277 to 282: the position of the marker.\<close>

definition temp_bar_pos :: "pynum \<Rightarrow> pynum \<Rightarrow> pynum \<Rightarrow> int result" where
  "temp_bar_pos temp min_range max_range =
    (if py_lt temp min_range then Inr 0
     else if py_lt max_range temp then Inr (int bar_length - 1)
     else
       bindE (py_sub temp min_range) (\<lambda>a.
       bindE (py_sub max_range min_range) (\<lambda>b.
       bindE (py_truediv a b) (\<lambda>q.
       bindE (py_mul q (PyInt (int bar_length - 1))) (\<lambda>p.
       py_int_of p)))))"

text \<open>Lines 284 to 296: the cells of the bar.\<close>

definition bar_chars :: "pynum \<Rightarrow> int \<Rightarrow> glyph list" where
  "bar_chars temp pos =
     map (\<lambda>i. if int i = pos then Bullet
              else if int i < pos
              then (if py_lt temp (PyInt 0) then DarkShade
                    else if py_lt temp (PyInt 20) then MediumShade
                    else LightShade)
              else Ch (CHR ''.''))
         [0..<bar_length]"

definition create_temp_bar :: "env \<Rightarrow> pynum \<Rightarrow> pynum \<Rightarrow> pynum \<Rightarrow> glyph list result" where
  "create_temp_bar env temp min_range max_range =
     bindE (temp_bar_pos temp min_range max_range) (\<lambda>pos.
     Inr (text_of (format_number env min_range) @ text_of (CHR 0xB0 # ''C '')
          @ text_of ''['' @ bar_chars temp pos @ text_of '']''
          @ text_of '' '' @ text_of (format_number env max_range)
          @ text_of (CHR 0xB0 # ''C\<newline>        Current: '')
          @ text_of (format_number env temp) @ text_of (CHR 0xB0 # ''C'')))"

section \<open>TerminalGraph\<close>

text \<open>\<^verbatim>\<open>sep.join(parts)\<close>\<close>

fun join :: "'a list \<Rightarrow> 'a list list \<Rightarrow> 'a list" where
  "join sep [] = []"
| "join sep [x] = x"
| "join sep (x # y # rest) = x @ sep @ join sep (y # rest)"

text \<open>Lines 123 to 133: what the sample \<open>i\<close> adds to the line of the row \<open>row\<close>.\<close>

definition graph_cell :: "real list \<Rightarrow> int \<Rightarrow> nat \<Rightarrow> glyph list" where
  "graph_cell normalized row i =
     (let norm_val = normalized ! i in
      (if \<bar>norm_val - real_of_int row\<bar> < 0.5 then [Bullet]
       else if i > 0
       then (let prev_val = normalized ! (i - 1) in
             if (prev_val \<le> real_of_int row \<and> real_of_int row \<le> norm_val)
                \<or> (norm_val \<le> real_of_int row \<and> real_of_int row \<le> prev_val)
             then [Dash] else [Ch (CHR '' '')])
       else [Ch (CHR '' '')])
      @ [Ch (CHR '' '')])"

text \<open>Lines 119 to 135: the line of one row; the division raises when \<open>height\<close> is 1.\<close>

definition graph_row ::
  "env \<Rightarrow> real list \<Rightarrow> real \<Rightarrow> real \<Rightarrow> int \<Rightarrow> string \<Rightarrow> int \<Rightarrow> glyph list result" where
  "graph_row env normalized max_val range_val height unit row =
    (if height - 1 = 0 then Inl ZeroDivisionError
     else
       let y_value = max_val - (real_of_int row * range_val / real_of_int (height - 1))
       in Inr (text_of (format_6_1f env y_value) @ text_of unit @ text_of '' |''
               @ concat (map (graph_cell normalized row) [0..<length normalized])))"

fun graph_rows ::
  "env \<Rightarrow> real list \<Rightarrow> real \<Rightarrow> real \<Rightarrow> int \<Rightarrow> string \<Rightarrow> int list \<Rightarrow> glyph list list
   \<Rightarrow> glyph list list result" where
  "graph_rows env normalized max_val range_val height unit [] graph_lines = Inr graph_lines"
| "graph_rows env normalized max_val range_val height unit (row # rows) graph_lines =
     (case graph_row env normalized max_val range_val height unit row of
        Inl e \<Rightarrow> Inl e
      | Inr line \<Rightarrow>
          graph_rows env normalized max_val range_val height unit rows (graph_lines @ [line]))"

definition create_line_graph ::
  "env \<Rightarrow> real list \<Rightarrow> string list \<Rightarrow> string \<Rightarrow> int \<Rightarrow> string \<Rightarrow> glyph list result" where
  "create_line_graph env data labels title height unit =
    (if data = [] \<or> length data \<noteq> length labels \<or> length data < 2
     then Inr (text_of (''\<newline>[GRAPH] '' @ title @ ''\<newline>Insufficient data for graph display''))
     else
       let min_val = Min (set data);
           max_val = Max (set data);
           range_val = (if min_val \<noteq> max_val then max_val - min_val else 1);
           normalized = map (\<lambda>val. (val - min_val) / range_val * real_of_int (height - 1)) data;
           graph_lines = [text_of (''\<newline>[GRAPH] '' @ title), text_of (replicate 60 (CHR ''=''))]
       in bindE (graph_rows env normalized max_val range_val height unit
                   (rev (map int [0..<nat height])) graph_lines) (\<lambda>graph_lines.
          let x_axis = text_of ''        +'' @ replicate (length data * 2 - 1) Dash;
              label_line = text_of (''         '' @ join ''  '' (map (take 3) labels))
          in Inr (join [Ch (CHR ''\<newline>'')] (graph_lines @ [x_axis, label_line]))))"

section \<open>Reading a result\<close>

text \<open>
  A field of a value is named by the keys and indices that lead to it:
  \<^verbatim>\<open>r["forecast"][0]["wind"]\<close> is the path \<open>[Key ''forecast'', Idx 0, Key ''wind'']\<close>. The
  value is \<open>None\<close> where a key is absent, an index is out of range or the value on the
  way is of another kind.
\<close>

datatype step = Key string | Idx nat

fun json_path :: "json \<Rightarrow> step list \<Rightarrow> json option" where
  "json_path v [] = Some v"
| "json_path (JDict d) (Key k # rest) =
     (case map_of d k of None \<Rightarrow> None | Some v \<Rightarrow> json_path v rest)"
| "json_path (JList xs) (Idx i # rest) =
     (if i < length xs then json_path (xs ! i) rest else None)"
| "json_path v (s # rest) = None"

text \<open>The same for what an operation returned; an exception has no fields.\<close>

definition result_path :: "json_dict result \<times> request list \<Rightarrow> step list \<Rightarrow> json option" where
  "result_path out path =
     (case fst out of Inl e \<Rightarrow> None | Inr r \<Rightarrow> json_path (JDict r) path)"

section \<open>A sample run\<close>

text \<open>
  One answer of the geocoding service and one of the forecast service, as Open-Meteo
  sends them for London; the \<^verbatim>\<open>current\<close> block has no \<^verbatim>\<open>precipitation\<close> field, and
  the \<^verbatim>\<open>daily\<close> block holds three days.
\<close>

definition sample_geo :: json where
  "sample_geo = JDict
     [(''results'', JList [JDict
        [(''latitude'', JFloat (103 / 2)), (''longitude'', JFloat (- (1 / 8))),
         (''name'', JStr ''London''), (''country'', JStr ''United Kingdom'')]])]"

definition sample_current :: json_dict where
  "sample_current =
     [(''time'', JStr ''2024-05-01T12:00''),
      (''temperature_2m'', JFloat (29 / 2)),
      (''relative_humidity_2m'', JInt 70),
      (''apparent_temperature'', JFloat 13),
      (''weather_code'', JInt 0),
      (''surface_pressure'', JFloat (2025 / 2)),
      (''wind_speed_10m'', JFloat (23 / 2)),
      (''wind_direction_10m'', JInt 230)]"

definition sample_daily :: json_dict where
  "sample_daily =
     [(''time'', JList [JStr ''2024-05-01'', JStr ''2024-05-02'', JStr ''2024-05-03'']),
      (''temperature_2m_max'', JList [JFloat 15, JFloat 16, JFloat 17]),
      (''temperature_2m_min'', JList [JFloat 5, JFloat 6, JFloat 7]),
      (''weather_code'', JList [JInt 0, JInt 61, JInt 3]),
      (''precipitation_sum'', JList [JFloat 0, JFloat (5 / 2), JFloat 0]),
      (''wind_speed_10m_max'', JList [JFloat 10, JFloat 12, JFloat 9]),
      (''wind_direction_10m_dominant'', JList [JInt 200, JInt 210, JInt 220])]"

definition sample_body :: json_dict where
  "sample_body = [(''current'', JDict sample_current), (''daily'', JDict sample_daily)]"

definition sample_env :: env where
  "sample_env =
     \<lparr> http_get = (\<lambda>url params.
          if url = geo_url then Some sample_geo else Some (JDict sample_body)),
       format_value = (\<lambda>v. ''?''),
       iso_timestamp = (\<lambda>s. Some 0),
       format_number = (\<lambda>r. ''0''),
       format_6_1f = (\<lambda>r. ''   0.0'') \<rparr>"

text \<open>
  The same forecast answer without the \<^verbatim>\<open>precipitation_sum\<close> series, and a network
  that answers no request.
\<close>

definition dry_daily :: json_dict where
  "dry_daily =
     [(''time'', JList [JStr ''2024-05-01'', JStr ''2024-05-02'', JStr ''2024-05-03'']),
      (''temperature_2m_max'', JList [JFloat 15, JFloat 16, JFloat 17]),
      (''temperature_2m_min'', JList [JFloat 5, JFloat 6, JFloat 7]),
      (''weather_code'', JList [JInt 0, JInt 61, JInt 3]),
      (''wind_speed_10m_max'', JList [JFloat 10, JFloat 12, JFloat 9]),
      (''wind_direction_10m_dominant'', JList [JInt 200, JInt 210, JInt 220])]"

definition dry_env :: env where
  "dry_env = sample_env \<lparr> http_get := (\<lambda>url params.
      if url = geo_url then Some sample_geo
      else Some (JDict [(''daily'', JDict dry_daily)])) \<rparr>"

definition offline_env :: env where
  "offline_env = sample_env \<lparr> http_get := (\<lambda>url params. None) \<rparr>"

section \<open>The gauge position in the words of the specification\<close>

text \<open>
  The specification gives the position of the marker as
  \<^verbatim>\<open>clamp(round((temp-minRange)/(maxRange-minRange)*(barLength-1)), 0, barLength-1)\<close>.
  These two definitions follow that sentence, not the code; \<open>round\<close> is rounding to the
  nearest integer.
\<close>

definition spec_clamp :: "int \<Rightarrow> int \<Rightarrow> int \<Rightarrow> int" where
  "spec_clamp x lo hi = max lo (min hi x)"

definition spec_gauge_pos :: "real \<Rightarrow> real \<Rightarrow> real \<Rightarrow> int \<Rightarrow> int" where
  "spec_gauge_pos temp minRange maxRange barLength =
     spec_clamp (round ((temp - minRange) / (maxRange - minRange) * (of_int barLength - 1)))
       0 (barLength - 1)"

text \<open>
  The scaled value of the same sentence as Python computes it: every subtraction,
  division and multiplication is rounded to the nearest double.
\<close>

definition float_gauge_value :: "real \<Rightarrow> real \<Rightarrow> real \<Rightarrow> int \<Rightarrow> real" where
  "float_gauge_value temp minRange maxRange barLength =
     round_real (round_real (round_real (temp - minRange) / round_real (maxRange - minRange))
                 * of_int (barLength - 1))"

section \<open>Basic facts\<close>

lemma bindE_Inl: "bindE (Inl e) f = Inl e"
  by (simp add: bindE_def)

lemma bindE_Inr: "bindE (Inr x) f = f x"
  by (simp add: bindE_def)

lemma bindE_eq_Inr:
  "bindE m f = Inr y \<longleftrightarrow> (\<exists>x. m = Inr x \<and> f x = Inr y)"
  by (cases m) (simp_all add: bindE_def)

lemma dropWhile_all: "\<forall>c \<in> set s. P c \<Longrightarrow> dropWhile P s = []"
  by (induction s) simp_all

section \<open>The weather-code table\<close>

text \<open>
  C7. The mapper answers for every integer code. Each code of the WMO table gets its own
  description and category: 0 and 1 are clear, 2 and 3 cloudy, 45 and 48 fog, 51 to 67
  and 80 to 82 rain, 71 to 77, 85 and 86 snow, 95, 96 and 99 storm. Every integer that is
  not in the table gets (Unknown, unknown).
\<close>

theorem weather_code_mapper_table:
  fixes c :: int
  shows "(\<exists>d k. wmo_get (JInt c) = Inr (d, k)
            \<and> get_description (JInt c) = Inr d \<and> get_condition (JInt c) = Inr k)
    \<and> wmo_get (JInt 0) = Inr (''Clear sky'', ''clear'')
    \<and> wmo_get (JInt 1) = Inr (''Mainly clear'', ''clear'')
    \<and> wmo_get (JInt 2) = Inr (''Partly cloudy'', ''cloudy'')
    \<and> wmo_get (JInt 3) = Inr (''Overcast'', ''cloudy'')
    \<and> wmo_get (JInt 45) = Inr (''Fog'', ''fog'')
    \<and> wmo_get (JInt 48) = Inr (''Depositing rime fog'', ''fog'')
    \<and> wmo_get (JInt 51) = Inr (''Light drizzle'', ''rain'')
    \<and> wmo_get (JInt 53) = Inr (''Moderate drizzle'', ''rain'')
    \<and> wmo_get (JInt 55) = Inr (''Dense drizzle'', ''rain'')
    \<and> wmo_get (JInt 56) = Inr (''Light freezing drizzle'', ''rain'')
    \<and> wmo_get (JInt 57) = Inr (''Dense freezing drizzle'', ''rain'')
    \<and> wmo_get (JInt 61) = Inr (''Slight rain'', ''rain'')
    \<and> wmo_get (JInt 63) = Inr (''Moderate rain'', ''rain'')
    \<and> wmo_get (JInt 65) = Inr (''Heavy rain'', ''rain'')
    \<and> wmo_get (JInt 66) = Inr (''Light freezing rain'', ''rain'')
    \<and> wmo_get (JInt 67) = Inr (''Heavy freezing rain'', ''rain'')
    \<and> wmo_get (JInt 71) = Inr (''Slight snow fall'', ''snow'')
    \<and> wmo_get (JInt 73) = Inr (''Moderate snow fall'', ''snow'')
    \<and> wmo_get (JInt 75) = Inr (''Heavy snow fall'', ''snow'')
    \<and> wmo_get (JInt 77) = Inr (''Snow grains'', ''snow'')
    \<and> wmo_get (JInt 80) = Inr (''Slight rain showers'', ''rain'')
    \<and> wmo_get (JInt 81) = Inr (''Moderate rain showers'', ''rain'')
    \<and> wmo_get (JInt 82) = Inr (''Violent rain showers'', ''rain'')
    \<and> wmo_get (JInt 85) = Inr (''Slight snow showers'', ''snow'')
    \<and> wmo_get (JInt 86) = Inr (''Heavy snow showers'', ''snow'')
    \<and> wmo_get (JInt 95) = Inr (''Thunderstorm'', ''storm'')
    \<and> wmo_get (JInt 96) = Inr (''Thunderstorm with slight hail'', ''storm'')
    \<and> wmo_get (JInt 99) = Inr (''Thunderstorm with heavy hail'', ''storm'')
    \<and> (c \<in> {0, 1} \<longrightarrow> get_condition (JInt c) = Inr ''clear'')
    \<and> (c \<in> {2, 3} \<longrightarrow> get_condition (JInt c) = Inr ''cloudy'')
    \<and> (c \<in> {45, 48} \<longrightarrow> get_condition (JInt c) = Inr ''fog'')
    \<and> (c \<in> {51, 53, 55, 56, 57, 61, 63, 65, 66, 67, 80, 81, 82}
         \<longrightarrow> get_condition (JInt c) = Inr ''rain'')
    \<and> (c \<in> {71, 73, 75, 77, 85, 86} \<longrightarrow> get_condition (JInt c) = Inr ''snow'')
    \<and> (c \<in> {95, 96, 99} \<longrightarrow> get_condition (JInt c) = Inr ''storm'')
    \<and> (c \<notin> {0, 1, 2, 3, 45, 48, 51, 53, 55, 56, 57, 61, 63, 65, 66, 67, 71, 73, 75, 77,
               80, 81, 82, 85, 86, 95, 96, 99}
         \<longrightarrow> get_description (JInt c) = Inr ''Unknown''
             \<and> get_condition (JInt c) = Inr ''unknown'')"
proof -
  have total: "\<exists>d k. wmo_get (JInt c) = Inr (d, k)
      \<and> get_description (JInt c) = Inr d \<and> get_condition (JInt c) = Inr k"
    by (cases "map_of WMO_CODES c")
       (auto simp add: get_description_def get_condition_def bindE_Inr)
  have table: "wmo_get (JInt 0) = Inr (''Clear sky'', ''clear'')"
    "wmo_get (JInt 1) = Inr (''Mainly clear'', ''clear'')"
    "wmo_get (JInt 2) = Inr (''Partly cloudy'', ''cloudy'')"
    "wmo_get (JInt 3) = Inr (''Overcast'', ''cloudy'')"
    "wmo_get (JInt 45) = Inr (''Fog'', ''fog'')"
    "wmo_get (JInt 48) = Inr (''Depositing rime fog'', ''fog'')"
    "wmo_get (JInt 51) = Inr (''Light drizzle'', ''rain'')"
    "wmo_get (JInt 53) = Inr (''Moderate drizzle'', ''rain'')"
    "wmo_get (JInt 55) = Inr (''Dense drizzle'', ''rain'')"
    "wmo_get (JInt 56) = Inr (''Light freezing drizzle'', ''rain'')"
    "wmo_get (JInt 57) = Inr (''Dense freezing drizzle'', ''rain'')"
    "wmo_get (JInt 61) = Inr (''Slight rain'', ''rain'')"
    "wmo_get (JInt 63) = Inr (''Moderate rain'', ''rain'')"
    "wmo_get (JInt 65) = Inr (''Heavy rain'', ''rain'')"
    "wmo_get (JInt 66) = Inr (''Light freezing rain'', ''rain'')"
    "wmo_get (JInt 67) = Inr (''Heavy freezing rain'', ''rain'')"
    "wmo_get (JInt 71) = Inr (''Slight snow fall'', ''snow'')"
    "wmo_get (JInt 73) = Inr (''Moderate snow fall'', ''snow'')"
    "wmo_get (JInt 75) = Inr (''Heavy snow fall'', ''snow'')"
    "wmo_get (JInt 77) = Inr (''Snow grains'', ''snow'')"
    "wmo_get (JInt 80) = Inr (''Slight rain showers'', ''rain'')"
    "wmo_get (JInt 81) = Inr (''Moderate rain showers'', ''rain'')"
    "wmo_get (JInt 82) = Inr (''Violent rain showers'', ''rain'')"
    "wmo_get (JInt 85) = Inr (''Slight snow showers'', ''snow'')"
    "wmo_get (JInt 86) = Inr (''Heavy snow showers'', ''snow'')"
    "wmo_get (JInt 95) = Inr (''Thunderstorm'', ''storm'')"
    "wmo_get (JInt 96) = Inr (''Thunderstorm with slight hail'', ''storm'')"
    "wmo_get (JInt 99) = Inr (''Thunderstorm with heavy hail'', ''storm'')"
    by (simp_all add: WMO_CODES_def)
  have groups: "c \<in> {0, 1} \<longrightarrow> get_condition (JInt c) = Inr ''clear''"
    "c \<in> {2, 3} \<longrightarrow> get_condition (JInt c) = Inr ''cloudy''"
    "c \<in> {45, 48} \<longrightarrow> get_condition (JInt c) = Inr ''fog''"
    "c \<in> {51, 53, 55, 56, 57, 61, 63, 65, 66, 67, 80, 81, 82}
       \<longrightarrow> get_condition (JInt c) = Inr ''rain''"
    "c \<in> {71, 73, 75, 77, 85, 86} \<longrightarrow> get_condition (JInt c) = Inr ''snow''"
    "c \<in> {95, 96, 99} \<longrightarrow> get_condition (JInt c) = Inr ''storm''"
    using table by (auto simp add: get_condition_def bindE_Inr)
  have "c \<notin> {0, 1, 2, 3, 45, 48, 51, 53, 55, 56, 57, 61, 63, 65, 66, 67, 71, 73, 75, 77,
               80, 81, 82, 85, 86, 95, 96, 99} \<longrightarrow> map_of WMO_CODES c = None"
    by (simp add: WMO_CODES_def)
  then have unknown: "c \<notin> {0, 1, 2, 3, 45, 48, 51, 53, 55, 56, 57, 61, 63, 65, 66, 67, 71,
               73, 75, 77, 80, 81, 82, 85, 86, 95, 96, 99}
         \<longrightarrow> get_description (JInt c) = Inr ''Unknown''
             \<and> get_condition (JInt c) = Inr ''unknown''"
    by (auto simp add: get_description_def get_condition_def bindE_Inr)
  from total table groups unknown show ?thesis
    by (intro conjI)
qed

theorem weather_code_mapper_table_witness:
  "(1::int) \<in> {0, 1} \<and> get_condition (JInt 1) = Inr ''clear''
   \<and> (3::int) \<in> {2, 3} \<and> get_condition (JInt 3) = Inr ''cloudy''
   \<and> (48::int) \<in> {45, 48} \<and> get_condition (JInt 48) = Inr ''fog''
   \<and> (63::int) \<in> {51, 53, 55, 56, 57, 61, 63, 65, 66, 67, 80, 81, 82}
   \<and> get_condition (JInt 63) = Inr ''rain''
   \<and> (75::int) \<in> {71, 73, 75, 77, 85, 86} \<and> get_condition (JInt 75) = Inr ''snow''
   \<and> (96::int) \<in> {95, 96, 99} \<and> get_condition (JInt 96) = Inr ''storm''
   \<and> (4::int) \<notin> {0, 1, 2, 3, 45, 48, 51, 53, 55, 56, 57, 61, 63, 65, 66, 67, 71, 73, 75,
                  77, 80, 81, 82, 85, 86, 95, 96, 99}
   \<and> get_description (JInt 4) = Inr ''Unknown'' \<and> get_condition (JInt 4) = Inr ''unknown''
   \<and> get_description (JInt (-1)) = Inr ''Unknown''
   \<and> get_condition (JInt 100) = Inr ''unknown''"
  using weather_code_mapper_table [of 1] weather_code_mapper_table [of 3]
    weather_code_mapper_table [of 48] weather_code_mapper_table [of 63]
    weather_code_mapper_table [of 75] weather_code_mapper_table [of 96]
    weather_code_mapper_table [of 4] weather_code_mapper_table [of "-1"]
    weather_code_mapper_table [of 100]
  by simp

section \<open>Coordinate lookup\<close>

text \<open>
  C10. A city name that is empty or holds white space only is answered at once with the
  error "City name cannot be empty": the list of requests sent is unchanged, so the
  geocoding service is not asked.
\<close>

theorem get_coordinates_blank_city:
  assumes "\<forall>c \<in> set city. py_isspace c"
  shows "get_coordinates env city reqs =
           (Inr [(''error'', JStr ''City name cannot be empty'')], reqs)"
  using assms
  by (simp add: get_coordinates_def strip_def dropWhile_all error_dict_def py_dict_def)

theorem get_coordinates_blank_city_witness:
  "py_isspace (CHR '' '') \<and> py_isspace (CHR 0x09)
   \<and> get_coordinates sample_env [CHR '' '', CHR 0x09, CHR '' ''] [] =
       (Inr [(''error'', JStr ''City name cannot be empty'')], [])
   \<and> get_coordinates sample_env [] [] =
       (Inr [(''error'', JStr ''City name cannot be empty'')], [])"
  using get_coordinates_blank_city [of "[CHR '' '', CHR 0x09, CHR '' '']" sample_env "[]"]
    get_coordinates_blank_city [of "[]" sample_env "[]"]
  by (simp add: py_isspace_def)

section \<open>The line graph\<close>

text \<open>
  C8. With fewer than two samples, or with values and labels of different lengths, the
  line graph is the fixed text "[GRAPH] title / Insufficient data for graph display". It
  contains the title, it does not depend on the samples, the labels, the height or the
  unit, and no exception is raised.
\<close>

theorem create_line_graph_insufficient:
  assumes "length data < 2 \<or> length data \<noteq> length labels"
  shows "create_line_graph env data labels title height unit =
           Inr (text_of ''\<newline>[GRAPH] '' @ text_of title
                @ text_of ''\<newline>Insufficient data for graph display'')
         \<and> (\<exists>out. create_line_graph env data labels title height unit = Inr out
                \<and> sublist (text_of title) out)"
proof -
  have guard: "data = [] \<or> length data \<noteq> length labels \<or> length data < 2"
    using assms by auto
  have eq: "create_line_graph env data labels title height unit =
           Inr (text_of ''\<newline>[GRAPH] '' @ text_of title
                @ text_of ''\<newline>Insufficient data for graph display'')"
    unfolding create_line_graph_def using guard by (simp add: text_of_def)
  have "sublist (text_of title)
          (text_of ''\<newline>[GRAPH] '' @ text_of title
           @ text_of ''\<newline>Insufficient data for graph display'')"
    by (rule sublist_appendI)
  with eq show ?thesis by blast
qed

theorem create_line_graph_insufficient_witness:
  "length [1::real] < 2
   \<and> create_line_graph sample_env [1] [''05/01''] ''Max'' 10 ''C'' =
       Inr (text_of ''\<newline>[GRAPH] Max\<newline>Insufficient data for graph display'')
   \<and> length [1, 2, 3::real] \<noteq> length [''05/01'', ''05/02'']
   \<and> create_line_graph sample_env [1, 2, 3] [''05/01'', ''05/02''] ''Max'' 10 ''C'' =
       Inr (text_of ''\<newline>[GRAPH] Max\<newline>Insufficient data for graph display'')
   \<and> create_line_graph sample_env [] [] ''Max'' 10 ''C'' =
       Inr (text_of ''\<newline>[GRAPH] Max\<newline>Insufficient data for graph display'')"
  using create_line_graph_insufficient
          [of "[1]" "[''05/01'']" sample_env "''Max''" 10 "''C''"]
    create_line_graph_insufficient
          [of "[1, 2, 3]" "[''05/01'', ''05/02'']" sample_env "''Max''" 10 "''C''"]
    create_line_graph_insufficient [of "[]" "[]" sample_env "''Max''" 10 "''C''"]
  by (simp add: text_of_def)

section \<open>Rounding to doubles\<close>

lemma binade_bounds:
  assumes "0 < a"
  shows "2 powi binade a \<le> a \<and> a < 2 powi (binade a + 1)"
proof (cases "1 \<le> a")
  case True
  let ?n = "\<lfloor>a\<rfloor>"
  have n: "0 < ?n" using True by simp
  from bitlen_bounds [OF n]
  have lo: "2 ^ nat (bitlen ?n - 1) \<le> ?n" and hi: "?n < 2 ^ nat (bitlen ?n)" by simp_all
  have b1: "1 \<le> bitlen ?n" using n by (auto simp: bitlen_alt_def)
  have "real_of_int (2 ^ nat (bitlen ?n - 1)) \<le> of_int ?n" using lo by linarith
  also have "\<dots> \<le> a" by simp
  finally have l: "2 powi (bitlen ?n - 1) \<le> a" using b1 by (simp add: power_int_def)
  have "?n + 1 \<le> 2 ^ nat (bitlen ?n)" using hi by simp
  then have "real_of_int (?n + 1) \<le> real_of_int (2 ^ nat (bitlen ?n))" by linarith
  moreover have "a < real_of_int (?n + 1)" by linarith
  ultimately have "a < real_of_int (2 ^ nat (bitlen ?n))" by linarith
  then have h: "a < 2 powi (bitlen ?n)" using b1 by (simp add: power_int_def)
  from l h True show ?thesis by (simp add: binade_def)
next
  case False
  let ?y = "1 / a"
  let ?c = "\<lceil>?y\<rceil>"
  have y1: "1 < ?y" using assms False by simp
  then have c2: "2 \<le> ?c" by linarith
  then have n: "0 < ?c - 1" by simp
  let ?k = "bitlen (?c - 1)"
  from bitlen_bounds [OF n]
  have lo: "2 ^ nat (?k - 1) \<le> ?c - 1" and hi: "?c - 1 < 2 ^ nat ?k" by simp_all
  have k1: "1 \<le> ?k" using n by (auto simp: bitlen_alt_def)
  have "real_of_int (2 ^ nat (?k - 1)) \<le> real_of_int (?c - 1)" using lo by linarith
  also have "\<dots> < ?y" by linarith
  finally have ylo: "2 ^ nat (?k - 1) < ?y" by simp
  have "?c \<le> 2 ^ nat ?k" using hi by simp
  then have "real_of_int ?c \<le> real_of_int (2 ^ nat ?k)" by (simp only: of_int_le_iff)
  moreover have "real_of_int (2 ^ nat ?k) = 2 ^ nat ?k" by simp
  moreover have "?y \<le> real_of_int ?c" by (rule le_of_int_ceiling)
  ultimately have yhi: "?y \<le> 2 ^ nat ?k" by linarith
  have p: "(0::real) < 2 ^ nat ?k" "(0::real) < 2 ^ nat (?k - 1)" by simp_all
  have l: "2 powi (- ?k) \<le> a"
  proof -
    have "1 / 2 ^ nat ?k \<le> a" using yhi assms p
      by (simp add: field_simps)
    then show ?thesis using k1 by (simp add: power_int_def field_simps)
  qed
  have h: "a < 2 powi (- ?k + 1)"
  proof -
    have "a < 1 / 2 ^ nat (?k - 1)" using ylo assms p
      by (simp add: field_simps)
    moreover have "2 powi (- ?k + 1) = (1::real) / 2 ^ nat (?k - 1)"
      using k1 by (cases "?k = 1") (auto simp add: power_int_def field_simps nat_diff_distrib)
    ultimately show ?thesis by simp
  qed
  from l h False show ?thesis by (simp add: binade_def)
qed

lemma binade_eqI:
  assumes "0 < a" "2 powi e \<le> a" "a < 2 powi (e + 1)"
  shows "binade a = e"
proof (rule ccontr)
  assume ne: "binade a \<noteq> e"
  from binade_bounds [OF assms(1)]
  have b: "2 powi binade a \<le> a" "a < 2 powi (binade a + 1)" by simp_all
  show False
  proof (cases "binade a < e")
    case True
    then have "binade a + 1 \<le> e" by simp
    then have "(2::real) powi (binade a + 1) \<le> 2 powi e" by (rule power_int_increasing) simp
    with b(2) assms(2) show False by linarith
  next
    case False
    with ne have "e + 1 \<le> binade a" by simp
    then have "(2::real) powi (e + 1) \<le> 2 powi binade a" by (rule power_int_increasing) simp
    with b(1) assms(3) show False by linarith
  qed
qed

lemma binade_mono:
  assumes "0 < a" "a \<le> b"
  shows "binade a \<le> binade b"
proof (rule ccontr)
  assume "\<not> binade a \<le> binade b"
  then have "binade b + 1 \<le> binade a" by simp
  then have "(2::real) powi (binade b + 1) \<le> 2 powi binade a" by (rule power_int_increasing) simp
  moreover from binade_bounds [of a] assms have "2 powi binade a \<le> a" by simp
  moreover from binade_bounds [of b] assms have "b < 2 powi (binade b + 1)" by simp
  ultimately show False using assms(2) by linarith
qed

lemma round_half_even_of_int [simp]: "round_half_even (of_int n) = n"
  by (simp add: round_half_even_def)

lemma round_half_even_mono:
  assumes "y \<le> z"
  shows "round_half_even y \<le> round_half_even z"
proof (cases "\<lfloor>y\<rfloor> = \<lfloor>z\<rfloor>")
  case True
  with assms show ?thesis
    by (auto simp add: round_half_even_def Let_def)
next
  case False
  with assms have "\<lfloor>y\<rfloor> + 1 \<le> \<lfloor>z\<rfloor>" using floor_mono [OF assms] by linarith
  moreover have "round_half_even y \<le> \<lfloor>y\<rfloor> + 1"
    by (auto simp add: round_half_even_def Let_def)
  moreover have "\<lfloor>z\<rfloor> \<le> round_half_even z"
    by (auto simp add: round_half_even_def Let_def)
  ultimately show ?thesis by linarith
qed

lemma round_half_even_minus: "round_half_even (- y) = - round_half_even y"
proof (cases "y = of_int \<lfloor>y\<rfloor>")
  case True
  then obtain n where "y = of_int n" by metis
  then have "round_half_even (- y) = round_half_even (of_int (- n))" by simp
  also have "\<dots> = - n" by (rule round_half_even_of_int)
  finally show ?thesis using \<open>y = of_int n\<close> by simp
next
  case False
  then have fl: "\<lfloor>- y\<rfloor> = - \<lfloor>y\<rfloor> - 1"
    by (metis ceiling_altdef ceiling_def add_diff_cancel_right' minus_diff_eq uminus_add_conv_diff of_int_floor_cancel)
  show ?thesis
    unfolding round_half_even_def Let_def fl
    by (auto simp add: algebra_simps)
qed

lemma round_real_ulp: "x \<noteq> 0 \<Longrightarrow> round_real x = of_int (round_half_even (x / ulp x)) * ulp x"
  by (simp add: round_real_def)

lemma two_powi_add: "(2::real) powi (a + b) = 2 powi a * 2 powi b"
  by (rule power_int_add) simp

lemma ulp_pos: "0 < ulp x"
  by (simp add: ulp_def)

lemma round_real_minus: "round_real (- x) = - round_real x"
  by (simp add: round_real_def ulp_def round_half_even_minus)

lemma round_real_nonneg: "0 \<le> x \<Longrightarrow> 0 \<le> round_real x"
proof (cases "x = 0")
  case False
  assume "0 \<le> x"
  then have "0 \<le> x / ulp x" using ulp_pos [of x] by simp
  then have "round_half_even 0 \<le> round_half_even (x / ulp x)" by (rule round_half_even_mono)
  then have "0 \<le> round_half_even (x / ulp x)" using round_half_even_of_int [of 0] by simp
  then show ?thesis using False ulp_pos [of x] by (simp add: round_real_ulp)
qed (simp add: round_real_def)

lemma round_real_pos_mono:
  assumes "0 < x" "x \<le> y"
  shows "round_real x \<le> round_real y"
proof -
  let ?e1 = "max (binade x) (- 1022)"
  let ?e2 = "max (binade y) (- 1022)"
  have y: "0 < y" using assms by linarith
  have bm: "binade x \<le> binade y" using assms by (rule binade_mono)
  have e12: "?e1 \<le> ?e2" using bm by simp
  have ax: "\<bar>x\<bar> = x" and ay: "\<bar>y\<bar> = y" using assms y by simp_all
  have ux: "ulp x = 2 powi (?e1 - 52)" and uy: "ulp y = 2 powi (?e2 - 52)"
    by (simp_all add: ulp_def ax ay)
  show ?thesis
  proof (cases "?e1 = ?e2")
    case True
    then have u: "ulp x = ulp y" by (simp add: ux uy)
    have "x / ulp y \<le> y / ulp y" using assms ulp_pos [of y] by (simp add: divide_right_mono)
    then have "round_half_even (x / ulp y) \<le> round_half_even (y / ulp y)"
      by (rule round_half_even_mono)
    then have "real_of_int (round_half_even (x / ulp y)) * ulp y
        \<le> real_of_int (round_half_even (y / ulp y)) * ulp y"
      using ulp_pos [of y] by (simp add: mult_right_mono)
    then show ?thesis using assms y u by (simp add: round_real_ulp)
  next
    case False
    with e12 have lt: "?e1 < ?e2" by linarith
    have by_e2: "binade y = ?e2"
    proof (rule ccontr)
      assume "binade y \<noteq> ?e2"
      then have "?e2 = - 1022" by (simp add: max_def split: if_splits)
      moreover have "- 1022 \<le> ?e1" by simp
      ultimately show False using lt by linarith
    qed
    have bx: "binade x \<le> ?e1" by simp
    have xlt: "x < 2 powi (?e1 + 1)"
    proof -
      have "x < 2 powi (binade x + 1)" using binade_bounds [OF assms(1)] by simp
      also have "(2::real) powi (binade x + 1) \<le> 2 powi (?e1 + 1)"
        using bx by (intro power_int_increasing) simp_all
      finally show ?thesis .
    qed
    have split1: "(2::real) powi (?e1 + 1) = 2 powi 53 * 2 powi (?e1 - 52)"
      using two_powi_add [of 53 "?e1 - 52"] by (simp add: algebra_simps)
    have "x / ulp x \<le> 2 powi 53"
      using xlt ulp_pos [of x] unfolding ux split1 by (simp add: field_simps)
    then have "x / ulp x \<le> real_of_int (2 ^ 53)" by simp
    then have "round_half_even (x / ulp x) \<le> round_half_even (real_of_int (2 ^ 53))"
      by (rule round_half_even_mono)
    then have "round_half_even (x / ulp x) \<le> 2 ^ 53"
      by (simp only: round_half_even_of_int)
    then have "real_of_int (round_half_even (x / ulp x)) \<le> 2 powi 53"
      by (metis of_int_le_iff of_int_numeral of_int_power power_int_numeral)
    then have "real_of_int (round_half_even (x / ulp x)) * ulp x \<le> 2 powi 53 * ulp x"
      using ulp_pos [of x] by (simp add: mult_right_mono)
    then have rx: "round_real x \<le> 2 powi (?e1 + 1)"
      using assms unfolding split1 ux [symmetric] by (simp add: round_real_ulp)
    have ylo: "2 powi ?e2 \<le> y"
      using binade_bounds [OF y] by_e2 by simp
    have split2: "(2::real) powi ?e2 = 2 powi 52 * 2 powi (?e2 - 52)"
      using two_powi_add [of 52 "?e2 - 52"] by (simp add: algebra_simps)
    have "2 powi 52 \<le> y / ulp y"
      using ylo ulp_pos [of y] unfolding uy split2 by (simp add: field_simps)
    then have "real_of_int (2 ^ 52) \<le> y / ulp y" by simp
    then have "round_half_even (real_of_int (2 ^ 52)) \<le> round_half_even (y / ulp y)"
      by (rule round_half_even_mono)
    then have "2 ^ 52 \<le> round_half_even (y / ulp y)"
      by (simp only: round_half_even_of_int)
    then have "2 powi 52 \<le> real_of_int (round_half_even (y / ulp y))"
      by (metis of_int_le_iff of_int_numeral of_int_power power_int_numeral)
    then have "2 powi 52 * ulp y \<le> real_of_int (round_half_even (y / ulp y)) * ulp y"
      using ulp_pos [of y] by (simp add: mult_right_mono)
    then have ry: "2 powi ?e2 \<le> round_real y"
      using y unfolding split2 uy [symmetric] by (simp add: round_real_ulp)
    have "?e1 + 1 \<le> ?e2" using lt by linarith
    then have "(2::real) powi (?e1 + 1) \<le> 2 powi ?e2"
      by (rule power_int_increasing) simp
    with rx ry show ?thesis by linarith
  qed
qed

lemma round_real_mono:
  assumes "x \<le> y"
  shows "round_real x \<le> round_real y"
proof -
  consider (pos) "0 < x" | (neg) "y < 0" | (mid) "x \<le> 0" "0 \<le> y" by linarith
  then show ?thesis
  proof cases
    case pos
    then show ?thesis using assms by (rule round_real_pos_mono)
  next
    case neg
    then have "0 < - y" "- y \<le> - x" using assms by simp_all
    then have "round_real (- y) \<le> round_real (- x)" by (rule round_real_pos_mono)
    then show ?thesis by (simp add: round_real_minus)
  next
    case mid
    have "0 \<le> round_real (- x)" using mid(1) by (intro round_real_nonneg) simp
    then have "round_real x \<le> 0" by (simp add: round_real_minus)
    moreover have "0 \<le> round_real y" using mid(2) by (rule round_real_nonneg)
    ultimately show ?thesis by linarith
  qed
qed

lemma round_real_of_int:
  assumes "\<bar>n\<bar> \<le> 2 ^ 53"
  shows "round_real (of_int n) = of_int n"
proof -
  have pos: "round_real (of_int m) = of_int m" if m: "0 < m" "m \<le> 2 ^ 53" for m :: int
  proof -
    let ?x = "real_of_int m"
    have x: "0 < ?x" using m by simp
    have "?x \<le> real_of_int (2 ^ 53)" using m(2) by (simp only: of_int_le_iff)
    then have "?x < 2 powi 54" by simp
    have b0: "0 \<le> binade ?x"
    proof -
      have "(1::real) \<le> ?x" using m by simp
      then have "binade 1 \<le> binade ?x" by (intro binade_mono) simp_all
      moreover have "binade 1 = 0" by (rule binade_eqI) simp_all
      ultimately show ?thesis by simp
    qed
    have b53: "binade ?x \<le> 53"
    proof -
      have "binade ?x \<le> binade (2 powi 53)"
        using x \<open>?x \<le> real_of_int (2 ^ 53)\<close> by (intro binade_mono) simp_all
      moreover have "binade (2 powi 53) = 53" by (rule binade_eqI) simp_all
      ultimately show ?thesis by simp
    qed
    define e where "e = binade ?x"
    have u: "ulp ?x = 2 powi (e - 52)" using b0 x by (simp add: ulp_def e_def)
    show ?thesis
    proof (cases "e \<le> 52")
      case True
      have "?x / ulp ?x = ?x * 2 powi (52 - e)"
        unfolding u by (simp add: power_int_diff field_simps)
      also have "\<dots> = real_of_int (m * 2 ^ nat (52 - e))"
        using True by (simp add: power_int_def)
      finally have "round_half_even (?x / ulp ?x) = m * 2 ^ nat (52 - e)"
        by (simp only: round_half_even_of_int)
      then have "round_real ?x = real_of_int (m * 2 ^ nat (52 - e)) * 2 powi (e - 52)"
        using x u by (simp add: round_real_ulp)
      also have "\<dots> = ?x * (2 powi (52 - e) * 2 powi (e - 52))"
        using True by (simp add: power_int_def)
      also have "2 powi (52 - e) * 2 powi (e - 52) = (1::real)"
        using two_powi_add [of "52 - e" "e - 52"] by simp
      finally show ?thesis by simp
    next
      case False
      with b53 have e53: "e = 53" by (simp add: e_def)
      have "2 powi 53 \<le> ?x" using binade_bounds [OF x] e53 by (simp add: e_def)
      with \<open>?x \<le> real_of_int (2 ^ 53)\<close> have xe: "?x = 2 ^ 53" by simp
      have "ulp ?x = 2" using u e53 by simp
      then have "?x / ulp ?x = real_of_int (2 ^ 52)" using xe by simp
      then have "round_half_even (?x / ulp ?x) = 2 ^ 52"
        by (simp only: round_half_even_of_int)
      then show ?thesis using x u e53 xe by (simp add: round_real_ulp)
    qed
  qed
  consider "n = 0" | "0 < n" | "n < 0" by linarith
  then show ?thesis
  proof cases
    case 1
    then show ?thesis by (simp add: round_real_def)
  next
    case 2
    with assms show ?thesis by (intro pos) simp_all
  next
    case 3
    with assms have "round_real (of_int (- n)) = of_int (- n)" by (intro pos) simp_all
    then show ?thesis using round_real_minus [of "of_int n"] by simp
  qed
qed

lemma double_limit_large: "2 ^ 53 < double_limit"
proof -
  have "(2::real) powi 53 < 2 powi 1024" by (rule power_int_strict_increasing) simp_all
  then show ?thesis by (simp add: double_limit_def)
qed

lemma round_real_between:
  assumes "of_int lo \<le> x" "x \<le> of_int hi" "\<bar>lo\<bar> \<le> 2 ^ 53" "\<bar>hi\<bar> \<le> 2 ^ 53"
  shows "of_int lo \<le> round_real x" "round_real x \<le> of_int hi"
proof -
  have "round_real (of_int lo) \<le> round_real x" using assms(1) by (rule round_real_mono)
  then show "of_int lo \<le> round_real x" using round_real_of_int [OF assms(3)] by simp
  have "round_real x \<le> round_real (of_int hi)" using assms(2) by (rule round_real_mono)
  then show "round_real x \<le> of_int hi" using round_real_of_int [OF assms(4)] by simp
qed

lemma round_double_between:
  assumes "of_int lo \<le> x" "x \<le> of_int hi" "\<bar>lo\<bar> \<le> 2 ^ 53" "\<bar>hi\<bar> \<le> 2 ^ 53"
  shows "round_double x = Finite (round_real x)"
proof -
  from round_real_between [OF assms]
  have b: "of_int lo \<le> round_real x" "round_real x \<le> of_int hi" by simp_all
  have "real_of_int hi \<le> 2 ^ 53"
    using assms(4) by (metis abs_le_D1 of_int_le_iff of_int_numeral of_int_power)
  moreover have "- (2 ^ 53) \<le> real_of_int lo"
  proof -
    have "- (2 ^ 53) \<le> lo" using assms(3) by linarith
    then have "real_of_int (- (2 ^ 53)) \<le> real_of_int lo" by (simp only: of_int_le_iff)
    then show ?thesis by simp
  qed
  ultimately have "round_real x < double_limit" "- double_limit < round_real x"
    using b double_limit_large by linarith+
  then show ?thesis by (simp add: round_double_def Let_def)
qed

lemma to_float_small:
  assumes "\<bar>i\<bar> \<le> 2 ^ 53"
  shows "to_float (PyInt i) = Inr (Finite (of_int i))"
proof -
  have "round_double (of_int i) = Finite (round_real (of_int i))"
    by (rule round_double_between [of i _ i]) (use assms in simp_all)
  then show ?thesis using round_real_of_int [OF assms] by simp
qed

lemma round_real_70: "round_real 70 = 70"
  using round_real_of_int [of 70] by simp

lemma round_real_49_mult:
  assumes "0 \<le> q" "q \<le> 1"
  shows "round_double (q * 49) = Finite (round_real (q * 49))"
    and "0 \<le> round_real (q * 49)" and "round_real (q * 49) \<le> 49"
proof -
  have a: "real_of_int 0 \<le> q * 49" "q * 49 \<le> real_of_int 49" using assms by simp_all
  show "round_double (q * 49) = Finite (round_real (q * 49))"
    by (rule round_double_between [OF a]) simp_all
  from round_real_between [OF a]
  show "0 \<le> round_real (q * 49)" and "round_real (q * 49) \<le> 49" by simp_all
qed

lemma round_real_div_70:
  assumes "0 \<le> s" "s \<le> 70"
  shows "round_double (s / 70) = Finite (round_real (s / 70))"
    and "0 \<le> round_real (s / 70)" and "round_real (s / 70) \<le> 1"
proof -
  have a: "real_of_int 0 \<le> s / 70" "s / 70 \<le> real_of_int 1" using assms by simp_all
  show "round_double (s / 70) = Finite (round_real (s / 70))"
    by (rule round_double_between [OF a]) simp_all
  from round_real_between [OF a]
  show "0 \<le> round_real (s / 70)" and "round_real (s / 70) \<le> 1" by simp_all
qed

lemma round_real_plus_20:
  assumes "- 20 \<le> t" "t \<le> 50"
  shows "round_double (t + 20) = Finite (round_real (t + 20))"
    and "0 \<le> round_real (t + 20)" and "round_real (t + 20) \<le> 70"
proof -
  have a: "real_of_int 0 \<le> t + 20" "t + 20 \<le> real_of_int 70" using assms by simp_all
  show "round_double (t + 20) = Finite (round_real (t + 20))"
    by (rule round_double_between [OF a]) simp_all
  from round_real_between [OF a]
  show "0 \<le> round_real (t + 20)" and "round_real (t + 20) \<le> 70" by simp_all
qed

text \<open>The tail of the computation, from the rounded difference on.\<close>

lemma gauge_tail:
  assumes "0 \<le> s" "s \<le> 70"
  shows "bindE (py_truediv (PyFloat (Finite s)) (PyInt 70)) (\<lambda>q.
           bindE (py_mul q (PyInt 49)) py_int_of)
         = Inr (py_int (round_real (round_real (s / 70) * 49)))"
proof -
  have t70: "to_float (PyInt 70) = Inr (Finite 70)" using to_float_small [of 70] by simp
  have t49: "to_float (PyInt 49) = Inr (Finite 49)" using to_float_small [of 49] by simp
  note d = round_real_div_70 [OF assms]
  note m = round_real_49_mult [OF d(2,3)]
  have "py_truediv (PyFloat (Finite s)) (PyInt 70) = Inr (PyFloat (Finite (round_real (s / 70))))"
    by (simp add: t70 bindE_Inr float_div_def is_finite_def fval_def d(1) del: to_float.simps(2))
  moreover have "py_mul (PyFloat (Finite (round_real (s / 70)))) (PyInt 49)
      = Inr (PyFloat (Finite (round_real (round_real (s / 70) * 49))))"
    by (simp add: t49 bindE_Inr float_mul_def is_finite_def fval_def m(1) del: to_float.simps(2))
  ultimately show ?thesis by (simp add: bindE_Inr)
qed

lemma gauge_in_range:
  assumes "num_key temp = Some (0, t)" "- 20 \<le> t" "t \<le> 50"
  shows "temp_bar_pos temp (PyInt (- 20)) (PyInt 50)
           = Inr (py_int (float_gauge_value t (- 20) 50 50))"
proof -
  have nlt: "\<not> py_lt temp (PyInt (- 20))" "\<not> py_lt (PyInt 50) temp"
    using assms by (simp_all add: py_lt_def)
  have m20: "to_float (PyInt (- 20)) = Inr (Finite (- 20))" using to_float_small [of "- 20"] by simp
  note s = round_real_plus_20 [OF assms(2,3)]
  have fg: "float_gauge_value t (- 20) 50 50
      = round_real (round_real (round_real (t + 20) / 70) * 49)"
    by (simp add: float_gauge_value_def round_real_70)
  have tail: "bindE (py_truediv (PyFloat (Finite (round_real (t + 20)))) (PyInt 70)) (\<lambda>q.
           bindE (py_mul q (PyInt 49)) py_int_of)
         = Inr (py_int (round_real (round_real (round_real (t + 20) / 70) * 49)))"
    by (rule gauge_tail [OF s(2,3)])
  have sub: "py_sub temp (PyInt (- 20)) = Inr (PyFloat (Finite (round_real (t + 20))))
      \<or> (py_sub temp (PyInt (- 20)) = Inr (PyInt (\<lfloor>t\<rfloor> + 20)) \<and> t = of_int \<lfloor>t\<rfloor>)"
  proof (cases temp)
    case (PyInt i)
    with assms(1) show ?thesis by auto
  next
    case (PyFloat f)
    with assms(1) have "f = Finite t \<or> (f = NegZero \<and> t = 0)"
      by (cases f) auto
    then show ?thesis
      using PyFloat s(1)
      by (auto simp add: m20 bindE_Inr float_sub_def is_finite_def fval_def
            simp del: to_float.simps(2))
  qed
  then show ?thesis
  proof
    assume a: "py_sub temp (PyInt (- 20)) = Inr (PyFloat (Finite (round_real (t + 20))))"
    show ?thesis
      unfolding temp_bar_pos_def fg
      using nlt a tail by (simp add: bindE_Inr bar_length_def)
  next
    assume a: "py_sub temp (PyInt (- 20)) = Inr (PyInt (\<lfloor>t\<rfloor> + 20)) \<and> t = of_int \<lfloor>t\<rfloor>"
    define i where "i = \<lfloor>t\<rfloor>"
    have ti: "t = of_int i" using a by (simp add: i_def)
    have ir: "- 20 \<le> i" "i \<le> 50" using assms(2,3) ti by simp_all
    define s where "s = real_of_int i + 20"
    have sr: "0 \<le> s" "s \<le> 70" using ir by (simp_all add: s_def)
    have exact: "round_real (t + 20) = s"
      using round_real_of_int [of "i + 20"] ir by (simp add: ti s_def)
    note d = round_real_div_70 [OF sr]
    note m = round_real_49_mult [OF d(2,3)]
    have "real_of_int (i + 20) / real_of_int 70 = s / 70" by (simp add: s_def)
    then have div: "py_truediv (PyInt (i + 20)) (PyInt 70)
        = Inr (PyFloat (Finite (round_real (s / 70))))"
      using d(1) by (simp del: of_int_add)
    have t49: "to_float (PyInt 49) = Inr (Finite 49)" using to_float_small [of 49] by simp
    have mul: "py_mul (PyFloat (Finite (round_real (s / 70)))) (PyInt 49)
      = Inr (PyFloat (Finite (round_real (round_real (s / 70) * 49))))"
      by (simp add: t49 bindE_Inr float_mul_def is_finite_def fval_def m(1)
            del: to_float.simps(2))
    have "temp_bar_pos temp (PyInt (- 20)) (PyInt 50)
        = Inr (py_int (round_real (round_real (s / 70) * 49)))"
      unfolding temp_bar_pos_def
      using nlt a div mul by (simp add: bindE_Inr bar_length_def i_def)
    then show ?thesis by (simp add: fg exact)
  qed
qed

lemma round_real_eval:
  assumes "0 < x" "2 powi e \<le> x" "x < 2 powi (e + 1)" "- 1022 \<le> e"
  shows "round_real x = of_int (round_half_even (x * 2 powi (52 - e))) * 2 powi (e - 52)"
proof -
  have b: "binade \<bar>x\<bar> = e" using assms by (intro binade_eqI) simp_all
  have u: "ulp x = 2 powi (e - 52)" using assms(4) by (simp add: ulp_def b)
  have "2 powi (52 - e) * 2 powi (e - 52) = (1::real)"
    using two_powi_add [of "52 - e" "e - 52"] by simp
  then have "x / 2 powi (e - 52) = x * 2 powi (52 - e)"
    by (simp add: field_simps)
  then show ?thesis using assms(1) by (simp add: round_real_ulp u)
qed

lemma round_real_one_70th: "round_real (1 / 70) = 8235153604334621 / 576460752303423488"
  by (subst round_real_eval [where e = "- 7"]) (simp_all add: round_half_even_def)

lemma round_real_49_70ths: "round_real (403522526612396429 / 576460752303423488)
    = 3152519739159347 / 4503599627370496"
  by (subst round_real_eval [where e = "- 1"]) (simp_all add: round_half_even_def)

lemma gauge_at_minus_19:
  "float_gauge_value (- 19) (- 20) 50 50 = 3152519739159347 / 4503599627370496"
proof -
  have one: "round_real 1 = 1" using round_real_of_int [of 1] by simp
  have "float_gauge_value (- 19) (- 20) 50 50 = round_real (round_real (1 / 70) * 49)"
    by (simp add: float_gauge_value_def round_real_70 one)
  also have "round_real (1 / 70) * 49 = 403522526612396429 / 576460752303423488"
    by (simp add: round_real_one_70th)
  finally show ?thesis by (simp only: round_real_49_70ths)
qed

section \<open>The temperature gauge\<close>

lemma py_int_mono: "x \<le> y \<Longrightarrow> py_int x \<le> py_int y"
proof -
  assume xy: "x \<le> y"
  show ?thesis
  proof (cases "0 \<le> x")
    case True
    with xy show ?thesis by (simp add: py_int_def floor_mono)
  next
    case False
    then have cx: "\<lceil>x\<rceil> \<le> 0" by (simp add: ceiling_le_iff)
    show ?thesis
    proof (cases "0 \<le> y")
      case True
      then have fy: "0 \<le> \<lfloor>y\<rfloor>" by simp
      have "py_int x = \<lceil>x\<rceil>" "py_int y = \<lfloor>y\<rfloor>"
        using \<open>\<not> 0 \<le> x\<close> True by (simp_all add: py_int_def)
      with cx fy show ?thesis by linarith
    next
      case False
      with \<open>\<not> 0 \<le> x\<close> xy show ?thesis by (simp add: py_int_def ceiling_mono)
    qed
  qed
qed

lemma float_gauge_value_default:
  "float_gauge_value t (- 20) 50 50 = round_real (round_real (round_real (t + 20) / 70) * 49)"
  by (simp add: float_gauge_value_def round_real_70)

lemma float_gauge_value_mono:
  assumes "t \<le> t'"
  shows "float_gauge_value t (- 20) 50 50 \<le> float_gauge_value t' (- 20) 50 50"
proof -
  have "round_real (t + 20) \<le> round_real (t' + 20)" using assms by (intro round_real_mono) simp
  then have "round_real (t + 20) / 70 \<le> round_real (t' + 20) / 70" by simp
  then have "round_real (round_real (t + 20) / 70) \<le> round_real (round_real (t' + 20) / 70)"
    by (rule round_real_mono)
  then have "round_real (round_real (t + 20) / 70) * 49 \<le> round_real (round_real (t' + 20) / 70) * 49"
    by simp
  then show ?thesis unfolding float_gauge_value_default by (rule round_real_mono)
qed

lemma float_gauge_value_ends:
  "float_gauge_value (- 20) (- 20) 50 50 = 0" "float_gauge_value 50 (- 20) 50 50 = 49"
proof -
  have "round_real 1 = 1" using round_real_of_int [of 1] by simp
  moreover have "round_real 49 = 49" using round_real_of_int [of 49] by simp
  ultimately show "float_gauge_value 50 (- 20) 50 50 = 49"
    by (simp add: float_gauge_value_default round_real_70)
  show "float_gauge_value (- 20) (- 20) 50 50 = 0"
    by (simp add: float_gauge_value_default round_real_def)
qed

lemma py_int_gauge_range:
  assumes "- 20 \<le> t" "t \<le> 50"
  shows "0 \<le> py_int (float_gauge_value t (- 20) 50 50)"
    and "py_int (float_gauge_value t (- 20) 50 50) \<le> 49"
proof -
  have "py_int (float_gauge_value (- 20) (- 20) 50 50) \<le> py_int (float_gauge_value t (- 20) 50 50)"
    using assms(1) by (intro py_int_mono float_gauge_value_mono)
  then show "0 \<le> py_int (float_gauge_value t (- 20) 50 50)"
    by (simp add: float_gauge_value_ends py_int_def)
  have "py_int (float_gauge_value t (- 20) 50 50) \<le> py_int (float_gauge_value 50 (- 20) 50 50)"
    using assms(2) by (intro py_int_mono float_gauge_value_mono)
  then show "py_int (float_gauge_value t (- 20) 50 50) \<le> 49"
    by (simp add: float_gauge_value_ends py_int_def)
qed

text \<open>The position for every number, in one equation.\<close>

lemma temp_bar_pos_value:
  assumes "num_key temp = Some (j, t)"
  shows "temp_bar_pos temp (PyInt (- 20)) (PyInt 50) =
     Inr (if j < 0 \<or> (j = 0 \<and> t < - 20) then 0
          else if 0 < j \<or> (j = 0 \<and> 50 < t) then 49
          else py_int (float_gauge_value t (- 20) 50 50))"
proof -
  consider (low) "j < 0 \<or> (j = 0 \<and> t < - 20)" | (high) "0 < j \<or> (j = 0 \<and> 50 < t)"
    | (mid) "j = 0" "- 20 \<le> t" "t \<le> 50"
    by linarith
  then show ?thesis
  proof cases
    case low
    then have "py_lt temp (PyInt (- 20))" using assms by (auto simp add: py_lt_def)
    with low show ?thesis by (simp add: temp_bar_pos_def)
  next
    case high
    then have "py_lt (PyInt 50) temp" "\<not> py_lt temp (PyInt (- 20))"
      using assms by (auto simp add: py_lt_def)
    with high show ?thesis by (auto simp add: temp_bar_pos_def bar_length_def)
  next
    case mid
    with assms have "num_key temp = Some (0, t)" by simp
    from gauge_in_range [OF this mid(2,3)] mid show ?thesis by simp
  qed
qed

lemma num_key_cases:
  assumes "temp \<noteq> PyFloat NaN"
  obtains j t where "num_key temp = Some (j, t)"
proof (cases temp)
  case (PyInt i)
  then show ?thesis using that by simp
next
  case (PyFloat f)
  with assms show ?thesis using that by (cases f) simp_all
qed

lemma temp_bar_pos_nan:
  "temp_bar_pos (PyFloat NaN) (PyInt (- 20)) (PyInt 50) = Inl ValueError"
proof -
  have t: "to_float (PyInt 70) = Inr (Finite 70)" "to_float (PyInt (- 20)) = Inr (Finite (- 20))"
    "to_float (PyInt 49) = Inr (Finite 49)"
    using to_float_small [of 70] to_float_small [of "- 20"] to_float_small [of 49] by simp_all
  show ?thesis
    by (simp add: temp_bar_pos_def py_lt_def bindE_def t float_sub_def float_div_def
          float_mul_def is_finite_def fval_def bar_length_def del: to_float.simps(2))
qed

lemma temp_bar_pos_range:
  assumes "temp_bar_pos temp (PyInt (- 20)) (PyInt 50) = Inr pos"
  shows "0 \<le> pos" "pos < 50"
proof -
  have "temp \<noteq> PyFloat NaN" using assms temp_bar_pos_nan by auto
  then obtain j t where k: "num_key temp = Some (j, t)" by (rule num_key_cases)
  from temp_bar_pos_value [OF k] assms
  have pos: "pos = (if j < 0 \<or> (j = 0 \<and> t < - 20) then 0
          else if 0 < j \<or> (j = 0 \<and> 50 < t) then 49
          else py_int (float_gauge_value t (- 20) 50 50))" by simp
  have "0 \<le> pos \<and> pos < 50"
  proof (cases "j = 0 \<and> - 20 \<le> t \<and> t \<le> 50")
    case True
    with py_int_gauge_range [of t] pos show ?thesis by auto
  next
    case False
    with pos show ?thesis by (auto split: if_splits)
  qed
  then show "0 \<le> pos" "pos < 50" by simp_all
qed

lemma temp_bar_pos_total:
  assumes "temp \<noteq> PyFloat NaN"
  shows "\<exists>pos. temp_bar_pos temp (PyInt (- 20)) (PyInt 50) = Inr pos"
proof -
  from assms obtain j t where k: "num_key temp = Some (j, t)" by (rule num_key_cases)
  from temp_bar_pos_value [OF k] show ?thesis by blast
qed

lemma temp_bar_pos_mono:
  assumes "py_le temp temp'"
    and "temp_bar_pos temp (PyInt (- 20)) (PyInt 50) = Inr pos"
    and "temp_bar_pos temp' (PyInt (- 20)) (PyInt 50) = Inr pos'"
  shows "pos \<le> pos'"
proof -
  from assms(1) obtain j t j' t' where k: "num_key temp = Some (j, t)"
    and k': "num_key temp' = Some (j', t')" and le: "j < j' \<or> (j = j' \<and> t \<le> t')"
    by (auto simp add: py_le_def split: option.splits)
  have r: "0 \<le> pos" "pos < 50" "0 \<le> pos'" "pos' < 50"
    using temp_bar_pos_range [OF assms(2)] temp_bar_pos_range [OF assms(3)] by simp_all
  from temp_bar_pos_value [OF k] assms(2)
  have p: "pos = (if j < 0 \<or> (j = 0 \<and> t < - 20) then 0
          else if 0 < j \<or> (j = 0 \<and> 50 < t) then 49
          else py_int (float_gauge_value t (- 20) 50 50))" by simp
  from temp_bar_pos_value [OF k'] assms(3)
  have p': "pos' = (if j' < 0 \<or> (j' = 0 \<and> t' < - 20) then 0
          else if 0 < j' \<or> (j' = 0 \<and> 50 < t') then 49
          else py_int (float_gauge_value t' (- 20) 50 50))" by simp
  show ?thesis
  proof (cases "j < 0 \<or> (j = 0 \<and> t < - 20)")
    case True
    with p r show ?thesis by simp
  next
    case low: False
    show ?thesis
    proof (cases "0 < j' \<or> (j' = 0 \<and> 50 < t')")
      case True
      then have "pos' = 49" using p' le low by (auto split: if_splits)
      with r show ?thesis by simp
    next
      case high: False
      from low high le have mid: "j = 0" "j' = 0" "- 20 \<le> t" "t \<le> t'" "t' \<le> 50"
        by auto
      then have "pos = py_int (float_gauge_value t (- 20) 50 50)"
        "pos' = py_int (float_gauge_value t' (- 20) 50 50)"
        using p p' by auto
      then show ?thesis
        using mid(4) by (simp add: py_int_mono float_gauge_value_mono)
    qed
  qed
qed

lemma count_list_map_upt:
  assumes "p < n" and "\<And>i. i < n \<Longrightarrow> (f i = y) = (i = p)"
  shows "count_list (map f [0..<n]) y = 1"
  using assms
proof (induction n)
  case 0
  then show ?case by simp
next
  case (Suc n)
  show ?case
  proof (cases "p = n")
    case True
    have "y \<notin> set (map f [0..<n])"
    proof
      assume "y \<in> set (map f [0..<n])"
      then obtain i where i: "i < n" "f i = y" by auto
      then have "i = p" using Suc.prems(2) [of i] by simp
      with i True show False by simp
    qed
    then have "count_list (map f [0..<n]) y = 0"
      by (metis count_list_0_iff)
    moreover have "f n = y" using Suc.prems(2) [of n] True by simp
    ultimately show ?thesis by simp
  next
    case False
    with Suc.prems have "p < n" by simp
    moreover have "\<And>i. i < n \<Longrightarrow> (f i = y) = (i = p)" using Suc.prems(2) by simp
    ultimately have "count_list (map f [0..<n]) y = 1" by (rule Suc.IH)
    moreover have "f n \<noteq> y" using Suc.prems(2) [of n] False by simp
    ultimately show ?thesis by simp
  qed
qed

lemma bar_chars_length: "length (bar_chars temp pos) = 50"
  by (simp add: bar_chars_def bar_length_def)

text \<open>The cell \<open>i\<close> of the bar is the marker exactly when \<open>i\<close> is the position.\<close>

lemma bar_chars_marker:
  assumes "i < 50"
  shows "(bar_chars temp pos ! i = Bullet) = (int i = pos)"
  using assms by (simp add: bar_chars_def bar_length_def)

lemma bar_chars_one_marker:
  assumes "0 \<le> pos" "pos < 50"
  shows "count_list (bar_chars temp pos) Bullet = 1"
  unfolding bar_chars_def bar_length_def
proof (rule count_list_map_upt [where p = "nat pos"])
  show "nat pos < 50" using assms by simp
next
  fix i :: nat
  assume "i < 50"
  show "((if int i = pos then Bullet
          else if int i < pos
               then if py_lt temp (PyInt 0) then DarkShade
                    else if py_lt temp (PyInt 20) then MediumShade else LightShade
               else Ch CHR ''.'') = Bullet) = (i = nat pos)"
  proof (cases "int i = pos")
    case True
    then have "i = nat pos" by simp
    with True show ?thesis by simp
  next
    case False
    then have "i \<noteq> nat pos" using assms by auto
    with False show ?thesis by simp
  qed
qed

lemma count_list_text_of: "count_list (text_of s) Bullet = 0"
  by (simp add: text_of_def count_list_0_iff image_iff)

lemma temp_bar_pos_clamped:
  assumes "num_key temp = Some (0, t)"
  shows "temp_bar_pos temp (PyInt (- 20)) (PyInt 50)
           = Inr (spec_clamp (py_int (float_gauge_value t (- 20) 50 50)) 0 (50 - 1))"
proof -
  let ?v = "py_int (float_gauge_value t (- 20) 50 50)"
  consider (low) "t < - 20" | (high) "50 < t" | (mid) "- 20 \<le> t" "t \<le> 50" by linarith
  then show ?thesis
  proof cases
    case low
    then have "?v \<le> py_int (float_gauge_value (- 20) (- 20) 50 50)"
      by (intro py_int_mono float_gauge_value_mono) simp
    then have "?v \<le> 0" by (simp add: float_gauge_value_ends py_int_def)
    with low temp_bar_pos_value [OF assms] show ?thesis by (simp add: spec_clamp_def)
  next
    case high
    then have "py_int (float_gauge_value 50 (- 20) 50 50) \<le> ?v"
      by (intro py_int_mono float_gauge_value_mono) simp
    then have "49 \<le> ?v" by (simp add: float_gauge_value_ends py_int_def)
    with high temp_bar_pos_value [OF assms] show ?thesis by (simp add: spec_clamp_def)
  next
    case mid
    with py_int_gauge_range [OF mid] temp_bar_pos_value [OF assms] show ?thesis
      by (simp add: spec_clamp_def)
  qed
qed

lemma create_temp_bar_text:
  assumes "temp_bar_pos temp min_range max_range = Inr pos"
  shows "create_temp_bar env temp min_range max_range =
     Inr (text_of (format_number env min_range) @ text_of (CHR 0xB0 # ''C '')
          @ text_of ''['' @ bar_chars temp pos @ text_of '']''
          @ text_of '' '' @ text_of (format_number env max_range)
          @ text_of (CHR 0xB0 # ''C\<newline>        Current: '')
          @ text_of (format_number env temp) @ text_of (CHR 0xB0 # ''C''))"
  using assms by (simp add: create_temp_bar_def bindE_Inr)

lemma round_real_half: "round_real (1 / 2) = 1 / 2"
  by (subst round_real_eval [where e = "- 1"]) (simp_all add: round_half_even_def)

lemma round_real_49_half: "round_real (49 / 2) = 49 / 2"
  by (subst round_real_eval [where e = 4]) (simp_all add: round_half_even_def)

lemma gauge_at_15: "float_gauge_value 15 (- 20) 50 50 = 49 / 2"
proof -
  have "round_real 35 = 35" using round_real_of_int [of 35] by simp
  then show ?thesis
    by (simp add: float_gauge_value_default round_real_half round_real_49_half)
qed


text \<open>
  C4, as the specification states it, fails: the code cuts the fraction off with
  \<^verbatim>\<open>int(...)\<close> where the specification rounds. At -19.0 degrees the scaled value is
  just below 0.7; the code puts the marker at 0, the formula of the specification at 1.
\<close>

theorem gauge_position_not_rounded:
  "temp_bar_pos (PyFloat (Finite (- 19))) (PyInt (- 20)) (PyInt 50) = Inr 0
   \<and> spec_gauge_pos (- 19) (- 20) 50 50 = 1"
proof -
  have "num_key (PyFloat (Finite (- 19))) = Some (0, - 19)" by simp
  from temp_bar_pos_value [OF this]
  have "temp_bar_pos (PyFloat (Finite (- 19))) (PyInt (- 20)) (PyInt 50) = Inr 0"
    by (simp add: gauge_at_minus_19 py_int_def)
  then show ?thesis
    by (simp add: spec_gauge_pos_def spec_clamp_def round_def)
qed

text \<open>
  C4, amended. With a bar of 50 cells and the range -20 to 50, for every temperature that
  is a number with a finite value \<open>t\<close> (an \<^verbatim>\<open>int\<close> or a \<^verbatim>\<open>float\<close>) the position is
  \<open>clamp(int(v), 0, barLength - 1)\<close>, where \<open>v\<close> is
  \<open>(temp - minRange) / (maxRange - minRange) * (barLength - 1)\<close> as Python computes it,
  each operation rounded to the nearest double, and \<open>int\<close> cuts the fraction off. A
  temperature below the range, minus infinity included, gives position 0 and one above
  it, infinity included, gives position 49. Every temperature other than \<^verbatim>\<open>nan\<close> gets a
  position, and whenever there is a position \<open>pos\<close> the gauge is rendered with the marker
  in the cell \<open>pos\<close> of its 50 cells and in no other cell.
\<close>

theorem gauge_position_truncated:
  "(num_key temp = Some (0, t) \<longrightarrow>
      temp_bar_pos temp (PyInt (- 20)) (PyInt 50)
        = Inr (spec_clamp (py_int (float_gauge_value t (- 20) 50 50)) 0 (50 - 1)))
   \<and> (py_lt temp (PyInt (- 20)) \<longrightarrow> temp_bar_pos temp (PyInt (- 20)) (PyInt 50) = Inr 0)
   \<and> (py_lt (PyInt 50) temp \<longrightarrow> temp_bar_pos temp (PyInt (- 20)) (PyInt 50) = Inr (50 - 1))
   \<and> (temp \<noteq> PyFloat NaN \<longrightarrow> (\<exists>pos. temp_bar_pos temp (PyInt (- 20)) (PyInt 50) = Inr pos))
   \<and> (\<forall>pos. temp_bar_pos temp (PyInt (- 20)) (PyInt 50) = Inr pos \<longrightarrow>
        create_temp_bar env temp (PyInt (- 20)) (PyInt 50) =
          Inr (text_of (format_number env (PyInt (- 20))) @ text_of (CHR 0xB0 # ''C '')
               @ text_of ''['' @ bar_chars temp pos @ text_of '']''
               @ text_of '' '' @ text_of (format_number env (PyInt 50))
               @ text_of (CHR 0xB0 # ''C\<newline>        Current: '')
               @ text_of (format_number env temp) @ text_of (CHR 0xB0 # ''C''))
        \<and> length (bar_chars temp pos) = 50
        \<and> (\<forall>i < 50. (bar_chars temp pos ! i = Bullet) = (int i = pos)))"
proof -
  have low: "py_lt temp (PyInt (- 20)) \<longrightarrow> temp_bar_pos temp (PyInt (- 20)) (PyInt 50) = Inr 0"
    by (simp add: temp_bar_pos_def)
  have high: "py_lt (PyInt 50) temp
      \<longrightarrow> temp_bar_pos temp (PyInt (- 20)) (PyInt 50) = Inr (50 - 1)"
    by (auto simp add: temp_bar_pos_def bar_length_def py_lt_def split: option.splits)
  show ?thesis
    using temp_bar_pos_clamped [of temp t] low high temp_bar_pos_total [of temp]
      create_temp_bar_text [of temp "PyInt (- 20)" "PyInt 50" _ env]
      bar_chars_length [of temp] bar_chars_marker [of _ temp]
    by (intro conjI impI allI) auto
qed

theorem gauge_position_truncated_witness:
  "temp_bar_pos (PyFloat (Finite (- 19))) (PyInt (- 20)) (PyInt 50) = Inr 0
   \<and> bar_chars (PyFloat (Finite (- 19))) 0 ! 0 = Bullet
   \<and> temp_bar_pos (PyInt 15) (PyInt (- 20)) (PyInt 50) = Inr 24
   \<and> bar_chars (PyInt 15) 24 ! 24 = Bullet
   \<and> bar_chars (PyInt 15) 24 ! 0 \<noteq> Bullet
   \<and> py_lt (PyFloat (Finite (- 100))) (PyInt (- 20))
   \<and> temp_bar_pos (PyFloat (Finite (- 100))) (PyInt (- 20)) (PyInt 50) = Inr 0
   \<and> py_lt (PyInt 50) (PyFloat PosInf)
   \<and> temp_bar_pos (PyFloat PosInf) (PyInt (- 20)) (PyInt 50) = Inr 49"
proof -
  note a = gauge_position_truncated [of "PyFloat (Finite (- 19))" "- 19" sample_env]
  note b = gauge_position_truncated [of "PyInt 15" 15 sample_env]
  note c = gauge_position_truncated [of "PyFloat (Finite (- 100))" "- 100" sample_env]
  note d = gauge_position_truncated [of "PyFloat PosInf" 0 sample_env]
  have pa: "temp_bar_pos (PyFloat (Finite (- 19))) (PyInt (- 20)) (PyInt 50) = Inr 0"
    using a by (simp add: gauge_at_minus_19 py_int_def spec_clamp_def)
  have pb: "temp_bar_pos (PyInt 15) (PyInt (- 20)) (PyInt 50) = Inr 24"
    using b by (simp add: gauge_at_15 py_int_def spec_clamp_def)
  have lc: "py_lt (PyFloat (Finite (- 100))) (PyInt (- 20))" by (simp add: py_lt_def)
  have ld: "py_lt (PyInt 50) (PyFloat PosInf)" by (simp add: py_lt_def)
  have pc: "temp_bar_pos (PyFloat (Finite (- 100))) (PyInt (- 20)) (PyInt 50) = Inr 0"
    using c lc by blast
  have pd: "temp_bar_pos (PyFloat PosInf) (PyInt (- 20)) (PyInt 50) = Inr 49"
    using d ld by simp
  have ca: "bar_chars (PyFloat (Finite (- 19))) 0 ! 0 = Bullet"
    using a pa by simp
  have cb: "bar_chars (PyInt 15) 24 ! 24 = Bullet" "bar_chars (PyInt 15) 24 ! 0 \<noteq> Bullet"
    using b pb by simp_all
  from pa pb pc pd lc ld ca cb show ?thesis by simp
qed

text \<open>
  C9. With the default range every temperature other than \<^verbatim>\<open>nan\<close> has a gauge, and
  whenever the gauge has an output, this output has between the brackets exactly
  \<open>bar_length = 50\<close> cells, exactly one of them the marker, which stands in the cell
  \<open>pos\<close> and occurs nowhere else in the text. The position does not decrease when the
  temperature rises; at -100 degrees it is 0 and the marker is in the first cell, at 100
  degrees it is \<open>bar_length - 1\<close> and the marker is in the last cell.
\<close>

theorem temperature_gauge_shape:
  "(temp \<noteq> PyFloat NaN \<longrightarrow> (\<exists>pos. temp_bar_pos temp (PyInt (- 20)) (PyInt 50) = Inr pos))
   \<and> (\<forall>pos. temp_bar_pos temp (PyInt (- 20)) (PyInt 50) = Inr pos \<longrightarrow>
        0 \<le> pos \<and> pos < int bar_length
        \<and> create_temp_bar env temp (PyInt (- 20)) (PyInt 50) =
            Inr (text_of (format_number env (PyInt (- 20))) @ text_of (CHR 0xB0 # ''C '')
                 @ text_of ''['' @ bar_chars temp pos @ text_of '']''
                 @ text_of '' '' @ text_of (format_number env (PyInt 50))
                 @ text_of (CHR 0xB0 # ''C\<newline>        Current: '')
                 @ text_of (format_number env temp) @ text_of (CHR 0xB0 # ''C''))
        \<and> length (bar_chars temp pos) = bar_length
        \<and> bar_length = 50
        \<and> count_list (bar_chars temp pos) Bullet = 1
        \<and> bar_chars temp pos ! nat pos = Bullet
        \<and> (\<forall>i < bar_length. (bar_chars temp pos ! i = Bullet) = (int i = pos))
        \<and> (\<forall>out. create_temp_bar env temp (PyInt (- 20)) (PyInt 50) = Inr out
              \<longrightarrow> count_list out Bullet = 1)
        \<and> (\<forall>temp' pos'. py_le temp temp'
              \<and> temp_bar_pos temp' (PyInt (- 20)) (PyInt 50) = Inr pos' \<longrightarrow> pos \<le> pos'))
   \<and> temp_bar_pos (PyInt (- 100)) (PyInt (- 20)) (PyInt 50) = Inr 0
   \<and> temp_bar_pos (PyFloat (Finite (- 100))) (PyInt (- 20)) (PyInt 50) = Inr 0
   \<and> bar_chars (PyFloat (Finite (- 100))) 0 ! 0 = Bullet
   \<and> temp_bar_pos (PyInt 100) (PyInt (- 20)) (PyInt 50) = Inr (int bar_length - 1)
   \<and> temp_bar_pos (PyFloat (Finite 100)) (PyInt (- 20)) (PyInt 50) = Inr (int bar_length - 1)
   \<and> bar_chars (PyFloat (Finite 100)) (int bar_length - 1) ! (bar_length - 1) = Bullet"
proof -
  have shape: "0 \<le> pos \<and> pos < int bar_length
        \<and> create_temp_bar env temp (PyInt (- 20)) (PyInt 50) =
            Inr (text_of (format_number env (PyInt (- 20))) @ text_of (CHR 0xB0 # ''C '')
                 @ text_of ''['' @ bar_chars temp pos @ text_of '']''
                 @ text_of '' '' @ text_of (format_number env (PyInt 50))
                 @ text_of (CHR 0xB0 # ''C\<newline>        Current: '')
                 @ text_of (format_number env temp) @ text_of (CHR 0xB0 # ''C''))
        \<and> length (bar_chars temp pos) = bar_length
        \<and> bar_length = 50
        \<and> count_list (bar_chars temp pos) Bullet = 1
        \<and> bar_chars temp pos ! nat pos = Bullet
        \<and> (\<forall>i < bar_length. (bar_chars temp pos ! i = Bullet) = (int i = pos))
        \<and> (\<forall>out. create_temp_bar env temp (PyInt (- 20)) (PyInt 50) = Inr out
              \<longrightarrow> count_list out Bullet = 1)
        \<and> (\<forall>temp' pos'. py_le temp temp'
              \<and> temp_bar_pos temp' (PyInt (- 20)) (PyInt 50) = Inr pos' \<longrightarrow> pos \<le> pos')"
    if pos: "temp_bar_pos temp (PyInt (- 20)) (PyInt 50) = Inr pos" for pos
  proof -
    note r = temp_bar_pos_range [OF pos]
    note out = create_temp_bar_text [OF pos, of env]
    have one: "count_list (bar_chars temp pos) Bullet = 1"
      using r by (rule bar_chars_one_marker)
    have at: "bar_chars temp pos ! nat pos = Bullet"
      using bar_chars_marker [of "nat pos" temp pos] r by simp
    have cells: "\<forall>i < bar_length. (bar_chars temp pos ! i = Bullet) = (int i = pos)"
      by (simp add: bar_chars_marker bar_length_def)
    have whole: "\<forall>out. create_temp_bar env temp (PyInt (- 20)) (PyInt 50) = Inr out
              \<longrightarrow> count_list out Bullet = 1"
      unfolding out using one by (auto simp add: count_list_text_of)
    have mono: "\<forall>temp' pos'. py_le temp temp'
              \<and> temp_bar_pos temp' (PyInt (- 20)) (PyInt 50) = Inr pos' \<longrightarrow> pos \<le> pos'"
      using temp_bar_pos_mono [OF _ pos] by blast
    from r out one at cells whole mono bar_chars_length [of temp pos] show ?thesis
      by (simp add: bar_length_def)
  qed
  have ends: "temp_bar_pos (PyInt (- 100)) (PyInt (- 20)) (PyInt 50) = Inr 0"
    "temp_bar_pos (PyFloat (Finite (- 100))) (PyInt (- 20)) (PyInt 50) = Inr 0"
    "temp_bar_pos (PyInt 100) (PyInt (- 20)) (PyInt 50) = Inr (int bar_length - 1)"
    "temp_bar_pos (PyFloat (Finite 100)) (PyInt (- 20)) (PyInt 50) = Inr (int bar_length - 1)"
    by (simp_all add: temp_bar_pos_def py_lt_def)
  have cells: "bar_chars (PyFloat (Finite (- 100))) 0 ! 0 = Bullet"
    "bar_chars (PyFloat (Finite 100)) (int bar_length - 1) ! (bar_length - 1) = Bullet"
    using bar_chars_marker [of 0 "PyFloat (Finite (- 100))" 0]
      bar_chars_marker [of 49 "PyFloat (Finite 100)" 49]
    by (simp_all add: bar_length_def)
  from shape ends cells temp_bar_pos_total [of temp] show ?thesis
    by (intro conjI impI allI) blast+
qed

theorem temperature_gauge_shape_witness:
  "temp_bar_pos (PyInt 15) (PyInt (- 20)) (PyInt 50) = Inr 24
   \<and> temp_bar_pos (PyInt 50) (PyInt (- 20)) (PyInt 50) = Inr 49
   \<and> py_le (PyInt 15) (PyInt 50) \<and> (24 :: int) \<le> 49
   \<and> length (bar_chars (PyInt 15) 24) = 50
   \<and> count_list (bar_chars (PyInt 15) 24) Bullet = 1
   \<and> bar_chars (PyInt 15) 24 ! 24 = Bullet
   \<and> bar_chars (PyInt 15) 24 ! 23 \<noteq> Bullet"
proof -
  have k: "num_key (PyInt 15) = Some (0, 15)" "num_key (PyInt 50) = Some (0, 50)" by simp_all
  have a: "temp_bar_pos (PyInt 15) (PyInt (- 20)) (PyInt 50) = Inr 24"
    using temp_bar_pos_value [OF k(1)] by (simp add: gauge_at_15 py_int_def)
  have b: "temp_bar_pos (PyInt 50) (PyInt (- 20)) (PyInt 50) = Inr 49"
    using temp_bar_pos_value [OF k(2)] by (simp add: float_gauge_value_ends py_int_def)
  have le: "py_le (PyInt 15) (PyInt 50)" by (simp add: py_le_def)
  from temperature_gauge_shape [of "PyInt 15" sample_env] a b le show ?thesis
    by (auto simp add: bar_length_def)
qed


subsection \<open>The gauge at particular doubles\<close>

text \<open>
  Where rounding decides. The literal \<^verbatim>\<open>9.999999999999998\<close> is the double next below 10;
  adding 20 rounds up to 30.0 and the scaled value is 21.0, so the position is 21, where
  exact arithmetic would give 20. With the range 0 to 49 the temperature 1 gives
  \<open>1 / 49 * 49\<close>, which is the double next below 1, so the position is 0. A \<^verbatim>\<open>nan\<close>
  passes both comparisons and \<^verbatim>\<open>int\<close> raises \<^verbatim>\<open>ValueError\<close>.
\<close>

lemma float_literal_below_10:
  "round_double 9.999999999999998 = Finite (5629499534213119 / 562949953421312)"
proof -
  have r: "round_real 9.999999999999998 = 5629499534213119 / 562949953421312"
    by (subst round_real_eval [where e = 3]) (simp_all add: round_half_even_def)
  have "round_double 9.999999999999998 = Finite (round_real 9.999999999999998)"
    by (rule round_double_between [of 0 _ 10]) simp_all
  then show ?thesis by (simp only: r)
qed

lemma gauge_below_10:
  "temp_bar_pos (PyFloat (Finite (5629499534213119 / 562949953421312))) (PyInt (- 20)) (PyInt 50)
     = Inr 21"
proof -
  have a: "round_real (16888498602639359 / 562949953421312) = 30"
    by (subst round_real_eval [where e = 4]) (simp_all add: round_half_even_def)
  have b: "round_real (3 / 7) = 7720456504063707 / 18014398509481984"
    by (subst round_real_eval [where e = "- 2"]) (simp_all add: round_half_even_def)
  have c: "round_real (378302368699121643 / 18014398509481984) = 21"
    by (subst round_real_eval [where e = 4]) (simp_all add: round_half_even_def)
  have "float_gauge_value (5629499534213119 / 562949953421312) (- 20) 50 50
      = round_real (round_real (round_real (16888498602639359 / 562949953421312) / 70) * 49)"
    by (simp add: float_gauge_value_default)
  also have "\<dots> = round_real (round_real (3 / 7) * 49)" by (simp add: a)
  also have "round_real (3 / 7) * 49 = 378302368699121643 / 18014398509481984" by (simp add: b)
  finally have v: "float_gauge_value (5629499534213119 / 562949953421312) (- 20) 50 50 = 21"
    by (simp only: c)
  have "num_key (PyFloat (Finite (5629499534213119 / 562949953421312)))
      = Some (0, 5629499534213119 / 562949953421312)" by simp
  from temp_bar_pos_value [OF this] show ?thesis
    by (simp add: v py_int_def)
qed

lemma gauge_1_of_49:
  "temp_bar_pos (PyInt 1) (PyInt 0) (PyInt 49) = Inr 0"
proof -
  have a: "round_real (1 / 49) = 5882252574524729 / 288230376151711744"
    by (subst round_real_eval [where e = "- 6"]) (simp_all add: round_half_even_def)
  have b: "round_real (288230376151711721 / 288230376151711744)
      = 9007199254740991 / 9007199254740992"
    by (subst round_real_eval [where e = "- 1"]) (simp_all add: round_half_even_def)
  have da: "round_double (1 / 49) = Finite (round_real (1 / 49))"
    by (rule round_double_between [of 0 _ 1]) simp_all
  have db: "round_double (288230376151711721 / 288230376151711744)
      = Finite (round_real (288230376151711721 / 288230376151711744))"
    by (rule round_double_between [of 0 _ 1]) simp_all
  have t49: "to_float (PyInt 49) = Inr (Finite 49)" using to_float_small [of 49] by simp
  have div: "py_truediv (PyInt 1) (PyInt 49)
      = Inr (PyFloat (Finite (5882252574524729 / 288230376151711744)))"
    using da by (simp add: a)
  have mul: "py_mul (PyFloat (Finite (5882252574524729 / 288230376151711744))) (PyInt 49)
      = Inr (PyFloat (Finite (9007199254740991 / 9007199254740992)))"
    by (simp add: t49 bindE_Inr float_mul_def is_finite_def fval_def db b
          del: to_float.simps(2))
  show ?thesis
    unfolding temp_bar_pos_def
    by (simp add: py_lt_def bindE_Inr bar_length_def div mul py_int_def
          del: py_truediv.simps py_mul.simps)
qed

lemma create_temp_bar_nan:
  "create_temp_bar env (PyFloat NaN) (PyInt (- 20)) (PyInt 50) = Inl ValueError"
  by (simp add: create_temp_bar_def temp_bar_pos_nan bindE_Inl)

section \<open>Current weather\<close>

lemma error_dict_has_error: "map_of (error_dict msg) ''error'' = Some (JStr msg)"
  by (simp add: error_dict_def py_dict_def)

text \<open>A coordinate lookup that reports no error has the five fields of a location.\<close>

lemma coordinates_result_success:
  assumes "coordinates_result city data = Inr coords" and "map_of coords ''error'' = None"
  shows "\<exists>lat lon name country admin1.
           coords = [(''lat'', lat), (''lon'', lon), (''name'', name),
                     (''country'', country), (''admin1'', admin1)]"
  using assms
  by (auto simp add: coordinates_result_def bindE_eq_Inr error_dict_has_error py_dict_def
           split: option.splits if_splits)

lemma get_coordinates_success:
  assumes "get_coordinates env city reqs = (Inr coords, reqs1)"
    and "map_of coords ''error'' = None"
  shows "\<exists>lat lon name country admin1.
           coords = [(''lat'', lat), (''lon'', lon), (''name'', name),
                     (''country'', country), (''admin1'', admin1)]"
  using assms
  by (auto simp add: get_coordinates_def make_request_def error_dict_has_error Let_def
           split: if_splits dest: coordinates_result_success)

text \<open>
  The dictionary that \<open>current_result\<close> returns, key by key. The key \<^verbatim>\<open>weather\<close> is
  written twice in the source, so it holds the second value, the list.
\<close>

lemma current_result_shape:
  assumes "current_result coords current = Inr r"
  shows "\<exists>cur name country lat lon description condition.
    current = JDict cur
    \<and> wmo_get (case map_of cur ''weather_code'' of None \<Rightarrow> JInt 0 | Some c \<Rightarrow> c)
        = Inr (description, condition)
    \<and> r =
      [(''location'', JDict
          [(''name'', name), (''country'', country),
           (''coordinates'', JDict [(''lat'', lat), (''lon'', lon)])]),
       (''current'', JDict
          [(''temperature'',
              case map_of cur ''temperature_2m'' of None \<Rightarrow> JNull | Some v \<Rightarrow> v),
           (''feels_like'',
              case map_of cur ''apparent_temperature'' of None \<Rightarrow> JNull | Some v \<Rightarrow> v),
           (''humidity'',
              case map_of cur ''relative_humidity_2m'' of None \<Rightarrow> JNull | Some v \<Rightarrow> v),
           (''pressure'',
              case map_of cur ''surface_pressure'' of None \<Rightarrow> JNull | Some v \<Rightarrow> v),
           (''wind_speed'',
              case map_of cur ''wind_speed_10m'' of None \<Rightarrow> JNull | Some v \<Rightarrow> v),
           (''wind_direction'',
              case map_of cur ''wind_direction_10m'' of None \<Rightarrow> JNull | Some v \<Rightarrow> v),
           (''precipitation'',
              case map_of cur ''precipitation'' of None \<Rightarrow> JInt 0 | Some v \<Rightarrow> v)]),
       (''weather'', JList [JDict
          [(''main'', JStr (py_title condition)), (''description'', JStr description)]]),
       (''timestamp'', case map_of cur ''time'' of None \<Rightarrow> JNull | Some v \<Rightarrow> v),
       (''name'', name),
       (''main'', JDict
          [(''temp'',
              case map_of cur ''temperature_2m'' of None \<Rightarrow> JNull | Some v \<Rightarrow> v),
           (''feels_like'',
              case map_of cur ''apparent_temperature'' of None \<Rightarrow> JNull | Some v \<Rightarrow> v),
           (''humidity'',
              case map_of cur ''relative_humidity_2m'' of None \<Rightarrow> JNull | Some v \<Rightarrow> v),
           (''pressure'',
              case map_of cur ''surface_pressure'' of None \<Rightarrow> JNull | Some v \<Rightarrow> v)]),
       (''wind'', JDict
          [(''speed'',
              case map_of cur ''wind_speed_10m'' of None \<Rightarrow> JNull | Some v \<Rightarrow> v),
           (''deg'',
              case map_of cur ''wind_direction_10m'' of None \<Rightarrow> JNull | Some v \<Rightarrow> v)])]"
proof (cases current)
  case (JDict cur)
  with assms show ?thesis
    unfolding current_result_def get_description_def get_condition_def
    by (auto simp add: bindE_eq_Inr py_dict_def)
qed (use assms in \<open>simp_all add: current_result_def bindE_Inl\<close>)

lemma get_current_weather_success:
  assumes "get_current_weather env city reqs = (Inr r, reqs')"
    and "map_of r ''error'' = None"
  shows "\<exists>coords current. current_result coords current = Inr r"
  using assms
  by (auto simp add: get_current_weather_def current_response_def make_request_def
        bindE_eq_Inr error_dict_has_error
      split: prod.splits sum.splits if_splits option.splits)

text \<open>The sample run, evaluated.\<close>

lemma sample_coordinates:
  "get_coordinates sample_env ''London'' reqs =
     (Inr [(''lat'', JFloat (103 / 2)), (''lon'', JFloat (- (1 / 8))),
           (''name'', JStr ''London''), (''country'', JStr ''United Kingdom''),
           (''admin1'', JStr [])],
      reqs @ [(geo_url, [(''name'', JStr ''London''), (''count'', JInt 1),
                         (''language'', JStr ''en''), (''format'', JStr ''json'')])])"
  by (simp add: get_coordinates_def strip_def py_isspace_def make_request_def sample_env_def
        sample_geo_def coordinates_result_def bindE_def py_dict_def)

lemma sample_current_result:
  "current_result
     [(''lat'', JFloat (103 / 2)), (''lon'', JFloat (- (1 / 8))), (''name'', JStr ''London''),
      (''country'', JStr ''United Kingdom''), (''admin1'', JStr [])]
     (JDict sample_current) =
   Inr [(''location'', JDict
          [(''name'', JStr ''London''), (''country'', JStr ''United Kingdom''),
           (''coordinates'', JDict
              [(''lat'', JFloat (103 / 2)), (''lon'', JFloat (- (1 / 8)))])]),
        (''current'', JDict
          [(''temperature'', JFloat (29 / 2)), (''feels_like'', JFloat 13),
           (''humidity'', JInt 70), (''pressure'', JFloat (2025 / 2)),
           (''wind_speed'', JFloat (23 / 2)), (''wind_direction'', JInt 230),
           (''precipitation'', JInt 0)]),
        (''weather'', JList [JDict
          [(''main'', JStr ''Clear''), (''description'', JStr ''Clear sky'')]]),
        (''timestamp'', JStr ''2024-05-01T12:00''),
        (''name'', JStr ''London''),
        (''main'', JDict
          [(''temp'', JFloat (29 / 2)), (''feels_like'', JFloat 13),
           (''humidity'', JInt 70), (''pressure'', JFloat (2025 / 2))]),
        (''wind'', JDict [(''speed'', JFloat (23 / 2)), (''deg'', JInt 230)])]"
  by (simp add: current_result_def sample_current_def bindE_def py_dict_def
        get_description_def get_condition_def WMO_CODES_def py_title_def
        to_upper_def to_lower_def lower_letters_def upper_letters_def)

lemma sample_current_weather:
  "get_current_weather sample_env ''London'' [] =
   (Inr [(''location'', JDict
          [(''name'', JStr ''London''), (''country'', JStr ''United Kingdom''),
           (''coordinates'', JDict
              [(''lat'', JFloat (103 / 2)), (''lon'', JFloat (- (1 / 8)))])]),
        (''current'', JDict
          [(''temperature'', JFloat (29 / 2)), (''feels_like'', JFloat 13),
           (''humidity'', JInt 70), (''pressure'', JFloat (2025 / 2)),
           (''wind_speed'', JFloat (23 / 2)), (''wind_direction'', JInt 230),
           (''precipitation'', JInt 0)]),
        (''weather'', JList [JDict
          [(''main'', JStr ''Clear''), (''description'', JStr ''Clear sky'')]]),
        (''timestamp'', JStr ''2024-05-01T12:00''),
        (''name'', JStr ''London''),
        (''main'', JDict
          [(''temp'', JFloat (29 / 2)), (''feels_like'', JFloat 13),
           (''humidity'', JInt 70), (''pressure'', JFloat (2025 / 2))]),
        (''wind'', JDict [(''speed'', JFloat (23 / 2)), (''deg'', JInt 230)])],
    [(geo_url, [(''name'', JStr ''London''), (''count'', JInt 1),
                (''language'', JStr ''en''), (''format'', JStr ''json'')]),
     (weather_url, current_params (JFloat (103 / 2)) (JFloat (- (1 / 8))))])"
  unfolding get_current_weather_def
  by (simp add: sample_coordinates bindE_def make_request_def current_response_def
        sample_current_result)
     (simp add: sample_env_def sample_body_def geo_url_def weather_url_def
        sample_current_result bindE_def)

text \<open>
  C3. In every current-weather response that is not an error, the canonical and the legacy
  view hold the same values: \<open>current.temperature = main.temp\<close>,
  \<open>current.feels_like = main.feels_like\<close>, \<open>current.humidity = main.humidity\<close>,
  \<open>current.pressure = main.pressure\<close>, \<open>current.wind_speed = wind.speed\<close> and
  \<open>current.wind_direction = wind.deg\<close>, and all twelve fields are present.
\<close>

theorem current_views_agree:
  assumes "get_current_weather env city reqs = (Inr r, reqs')"
    and "map_of r ''error'' = None"
  shows "\<exists>t f h p ws wd.
      json_path (JDict r) [Key ''current'', Key ''temperature''] = Some t
    \<and> json_path (JDict r) [Key ''main'', Key ''temp''] = Some t
    \<and> json_path (JDict r) [Key ''current'', Key ''feels_like''] = Some f
    \<and> json_path (JDict r) [Key ''main'', Key ''feels_like''] = Some f
    \<and> json_path (JDict r) [Key ''current'', Key ''humidity''] = Some h
    \<and> json_path (JDict r) [Key ''main'', Key ''humidity''] = Some h
    \<and> json_path (JDict r) [Key ''current'', Key ''pressure''] = Some p
    \<and> json_path (JDict r) [Key ''main'', Key ''pressure''] = Some p
    \<and> json_path (JDict r) [Key ''current'', Key ''wind_speed''] = Some ws
    \<and> json_path (JDict r) [Key ''wind'', Key ''speed''] = Some ws
    \<and> json_path (JDict r) [Key ''current'', Key ''wind_direction''] = Some wd
    \<and> json_path (JDict r) [Key ''wind'', Key ''deg''] = Some wd"
proof -
  from get_current_weather_success [OF assms]
  obtain coords current where "current_result coords current = Inr r" by blast
  from current_result_shape [OF this] show ?thesis by auto
qed

theorem current_views_agree_witness:
  "result_path (get_current_weather sample_env ''London'' []) [Key ''error''] = None
   \<and> result_path (get_current_weather sample_env ''London'' [])
        [Key ''current'', Key ''temperature''] = Some (JFloat (29 / 2))
   \<and> result_path (get_current_weather sample_env ''London'' [])
        [Key ''main'', Key ''temp''] = Some (JFloat (29 / 2))
   \<and> result_path (get_current_weather sample_env ''London'' [])
        [Key ''current'', Key ''wind_direction''] = Some (JInt 230)
   \<and> result_path (get_current_weather sample_env ''London'' [])
        [Key ''wind'', Key ''deg''] = Some (JInt 230)"
proof -
  obtain r q where run: "get_current_weather sample_env ''London'' [] = (Inr r, q)"
    and r: "map_of r ''error'' = None"
      "json_path (JDict r) [Key ''current'', Key ''temperature''] = Some (JFloat (29 / 2))"
      "json_path (JDict r) [Key ''current'', Key ''wind_direction''] = Some (JInt 230)"
    using sample_current_weather by simp
  from current_views_agree [OF run r(1)] r run show ?thesis
    by (auto simp add: result_path_def)
qed

text \<open>
  In every current-weather response that is not an error the key \<^verbatim>\<open>weather\<close> holds the
  legacy list of one \<open>{main, description}\<close> object, and a \<^verbatim>\<open>precipitation\<close> field
  that the \<^verbatim>\<open>current\<close> block of the answer lacks is reported as 0.
\<close>

lemma current_weather_is_legacy_list:
  assumes "get_current_weather env city reqs = (Inr r, reqs')"
    and "map_of r ''error'' = None"
  shows "\<exists>m d. map_of r ''weather''
           = Some (JList [JDict [(''main'', JStr m), (''description'', JStr d)]])"
proof -
  from get_current_weather_success [OF assms]
  obtain coords current where "current_result coords current = Inr r" by blast
  from current_result_shape [OF this] show ?thesis by auto
qed

lemma current_precipitation_default:
  assumes "current_result coords (JDict cur) = Inr r"
    and "map_of cur ''precipitation'' = None"
  shows "json_path (JDict r) [Key ''current'', Key ''precipitation''] = Some (JInt 0)"
  using current_result_shape [OF assms(1)] assms(2) by auto

section \<open>Forecast\<close>

lemma daily_at_list:
  assumes "map_of daily k = Some (JList xs)" and "i < length xs"
  shows "daily_at (JDict daily) k i = Inr (xs ! i)"
  using assms by (simp add: daily_at_def bindE_Inr)

lemma wmo_get_JInt_ok: "\<exists>d c. wmo_get (JInt n) = Inr (d, c)"
  by (cases "map_of WMO_CODES n") auto

text \<open>
  A day for which every series has an entry, whose date \<^verbatim>\<open>fromisoformat\<close> accepts and
  whose weather code is an integer, gives an item, dated as the answer dates it.
\<close>

lemma forecast_item_ok:
  assumes time: "map_of daily ''time'' = Some (JList stamps)" "length stamps = k"
    and tmax: "map_of daily ''temperature_2m_max'' = Some (JList tmaxs)" "length tmaxs = k"
    and tmin: "map_of daily ''temperature_2m_min'' = Some (JList tmins)" "length tmins = k"
    and code: "map_of daily ''weather_code'' = Some (JList codes)" "length codes = k"
    and prec: "map_of daily ''precipitation_sum'' = Some (JList precs)" "length precs = k"
    and wspd: "map_of daily ''wind_speed_10m_max'' = Some (JList wspds)" "length wspds = k"
    and wdir: "map_of daily ''wind_direction_10m_dominant'' = Some (JList wdirs)"
      "length wdirs = k"
    and dates: "\<forall>t \<in> set stamps. \<exists>s. t = JStr s \<and> iso_timestamp env (replace_Z s) \<noteq> None"
    and ints: "\<forall>c \<in> set codes. \<exists>n. c = JInt n"
    and i: "i < k"
  shows "\<exists>item. forecast_item env (JDict daily) i = Inr (JDict item)
           \<and> map_of item ''date'' = Some (stamps ! i)"
proof -
  from dates time i obtain s ts where s: "stamps ! i = JStr s"
    and ts: "iso_timestamp env (replace_Z s) = Some ts"
    by (metis nth_mem not_None_eq)
  from ints code i obtain n where n: "codes ! i = JInt n"
    by (metis nth_mem)
  obtain d c where dc: "wmo_get (JInt n) = Inr (d, c)"
    using wmo_get_JInt_ok by blast
  have "parse_date env (stamps ! i) = Inr ts"
    by (simp add: parse_date_def s ts)
  then show ?thesis
    unfolding forecast_item_def
    using i time tmax tmin code prec wspd wdir n dc
    by (simp add: daily_at_list bindE_Inr get_description_def get_condition_def py_dict_def)
qed

text \<open>Without the \<^verbatim>\<open>precipitation_sum\<close> series no day gives an item.\<close>

lemma forecast_item_needs_precipitation:
  assumes "map_of daily ''precipitation_sum'' = None"
  shows "forecast_item env (JDict daily) i \<noteq> Inr item"
  using assms
  by (auto simp add: forecast_item_def bindE_eq_Inr daily_at_def)

text \<open>The loop keeps the order of the indices and appends one item for each.\<close>

lemma forecast_loop_all:
  assumes "\<forall>i \<in> set idxs. \<exists>item. forecast_item env daily i = Inr (JDict item)
              \<and> map_of item ''date'' = Some (f i)"
  shows "\<exists>items. forecast_loop env daily idxs acc = Inr (acc @ items)
           \<and> length items = length idxs
           \<and> map (\<lambda>item. json_path item [Key ''date'']) items = map (\<lambda>i. Some (f i)) idxs"
  using assms
proof (induction idxs arbitrary: acc)
  case Nil
  then show ?case by simp
next
  case (Cons i rest)
  from Cons.prems obtain item where item: "forecast_item env daily i = Inr (JDict item)"
    "map_of item ''date'' = Some (f i)"
    by auto
  from Cons.prems have "\<forall>j \<in> set rest. \<exists>item. forecast_item env daily j = Inr (JDict item)
              \<and> map_of item ''date'' = Some (f j)"
    by simp
  from Cons.IH [OF this, of "acc @ [JDict item]"]
  obtain items where items: "forecast_loop env daily rest (acc @ [JDict item])
       = Inr ((acc @ [JDict item]) @ items)"
    "length items = length rest"
    "map (\<lambda>item. json_path item [Key ''date'']) items = map (\<lambda>i. Some (f i)) rest"
    by blast
  show ?case
  proof (intro exI conjI)
    show "forecast_loop env daily (i # rest) acc = Inr (acc @ (JDict item # items))"
      using item items by simp
    show "length (JDict item # items) = length (i # rest)"
      using items by simp
    show "map (\<lambda>item. json_path item [Key ''date'']) (JDict item # items)
            = map (\<lambda>i. Some (f i)) (i # rest)"
      using item items by simp
  qed
qed

lemma map_nth_take: "n \<le> length xs \<Longrightarrow> map (\<lambda>i. g (xs ! i)) [0..<n] = map g (take n xs)"
  by (simp add: list_eq_iff_nth_eq)

text \<open>
  C6. Let the city be resolved, the day count \<open>d\<close> be between 1 and 7, and the forecast
  service answer with a \<^verbatim>\<open>daily\<close> block of \<open>k\<close> days: each of the seven series is a
  list of \<open>k\<close> entries, every date is a string that \<^verbatim>\<open>fromisoformat\<close> accepts and
  every weather code is an integer. Then the forecast is returned without an exception
  and without an error; it has exactly \<open>min d k\<close> items, and their dates are the first
  \<open>min d k\<close> dates of the answer in the order of the answer. The legacy \<^verbatim>\<open>list\<close> holds the
  same items.
\<close>

theorem forecast_clips_to_available_days:
  assumes coords: "get_coordinates env city reqs = (Inr coords, reqs1)"
      "map_of coords ''error'' = None"
    and latlon: "map_of coords ''lat'' = Some lat" "map_of coords ''lon'' = Some lon"
    and days: "1 \<le> d" "d \<le> 7"
    and body: "http_get env weather_url (forecast_params lat lon d) = Some (JDict body)"
      "map_of body ''daily'' = Some (JDict daily)"
    and time: "map_of daily ''time'' = Some (JList stamps)" "length stamps = k"
    and tmax: "map_of daily ''temperature_2m_max'' = Some (JList tmaxs)" "length tmaxs = k"
    and tmin: "map_of daily ''temperature_2m_min'' = Some (JList tmins)" "length tmins = k"
    and code: "map_of daily ''weather_code'' = Some (JList codes)" "length codes = k"
    and prec: "map_of daily ''precipitation_sum'' = Some (JList precs)" "length precs = k"
    and wspd: "map_of daily ''wind_speed_10m_max'' = Some (JList wspds)" "length wspds = k"
    and wdir: "map_of daily ''wind_direction_10m_dominant'' = Some (JList wdirs)"
      "length wdirs = k"
    and dates: "\<forall>t \<in> set stamps. \<exists>s. t = JStr s \<and> iso_timestamp env (replace_Z s) \<noteq> None"
    and ints: "\<forall>c \<in> set codes. \<exists>n. c = JInt n"
  shows "\<exists>r items.
      get_forecast env city d reqs = (Inr r, reqs1 @ [(weather_url, forecast_params lat lon d)])
      \<and> map_of r ''error'' = None
      \<and> map_of r ''forecast'' = Some (JList items)
      \<and> map_of r ''list'' = Some (JList items)
      \<and> length items = min (nat d) k
      \<and> map (\<lambda>item. json_path item [Key ''date'']) items
          = map Some (take (min (nat d) k) stamps)"
proof -
  let ?n = "nat (min d (int k))"
  have n: "?n = min (nat d) k" using days by simp
  have nk: "?n \<le> length stamps" using time n by simp
  from get_coordinates_success [OF coords]
  obtain lat' lon' name country admin1 where
    c: "coords = [(''lat'', lat'), (''lon'', lon'), (''name'', name),
                  (''country'', country), (''admin1'', admin1)]"
    by blast
  with latlon have ll: "lat' = lat" "lon' = lon" by simp_all
  have "\<forall>i \<in> set [0..<?n]. \<exists>item. forecast_item env (JDict daily) i = Inr (JDict item)
           \<and> map_of item ''date'' = Some (stamps ! i)"
  proof
    fix i assume "i \<in> set [0..<?n]"
    then have "i < k" using n by simp
    from forecast_item_ok [OF time tmax tmin code prec wspd wdir dates ints this]
    show "\<exists>item. forecast_item env (JDict daily) i = Inr (JDict item)
           \<and> map_of item ''date'' = Some (stamps ! i)" .
  qed
  from forecast_loop_all [OF this, of "[]"]
  obtain items where items: "forecast_loop env (JDict daily) [0..<?n] [] = Inr items"
    "length items = ?n"
    "map (\<lambda>item. json_path item [Key ''date'']) items = map (\<lambda>i. Some (stamps ! i)) [0..<?n]"
    by auto
  have dates_eq: "map (\<lambda>item. json_path item [Key ''date'']) items = map Some (take ?n stamps)"
    using items(3) map_nth_take [OF nk, of Some] by simp
  let ?r = "[(''location'', JDict [(''name'', name), (''country'', country)]),
             (''forecast'', JList items), (''list'', JList items),
             (''city'', JDict [(''name'', name)])]"
  have res: "forecast_result env coords d (JDict daily) = Inr ?r"
    unfolding forecast_result_def
    using time items(1) c by (simp add: bindE_Inr py_dict_def)
  have "body \<noteq> []" using body(2) by auto
  then have resp: "forecast_response env coords name d (Some (JDict body)) = Inr ?r"
    unfolding forecast_response_def using body(2) res by (simp add: bindE_Inr)
  have "get_forecast env city d reqs
          = (Inr ?r, reqs1 @ [(weather_url, forecast_params lat lon d)])"
    unfolding get_forecast_def
    using coords days c ll body(1) resp by (simp add: bindE_Inr make_request_def)
  with items(2) dates_eq n show ?thesis by simp
qed

theorem forecast_clips_to_available_days_witness:
  "result_path (get_forecast sample_env ''London'' 7 []) [Key ''error''] = None
   \<and> result_path (get_forecast sample_env ''London'' 7 []) [Key ''forecast'', Idx 0, Key ''date'']
       = Some (JStr ''2024-05-01'')
   \<and> result_path (get_forecast sample_env ''London'' 7 []) [Key ''forecast'', Idx 1, Key ''date'']
       = Some (JStr ''2024-05-02'')
   \<and> result_path (get_forecast sample_env ''London'' 7 []) [Key ''forecast'', Idx 2, Key ''date'']
       = Some (JStr ''2024-05-03'')
   \<and> result_path (get_forecast sample_env ''London'' 7 []) [Key ''forecast'', Idx 3] = None"
proof -
  have body: "http_get sample_env weather_url
      (forecast_params (JFloat (103 / 2)) (JFloat (- (1 / 8))) 7) = Some (JDict sample_body)"
    by (simp add: sample_env_def weather_url_def geo_url_def)
  have dates: "\<forall>t \<in> set [JStr ''2024-05-01'', JStr ''2024-05-02'', JStr ''2024-05-03''].
      \<exists>s. t = JStr s \<and> iso_timestamp sample_env (replace_Z s) \<noteq> None"
    by (simp add: sample_env_def)
  have ints: "\<forall>c \<in> set [JInt 0, JInt 61, JInt 3]. \<exists>n. c = JInt n"
    by simp
  let ?coords = "[(''lat'', JFloat (103 / 2)), (''lon'', JFloat (- (1 / 8))),
      (''name'', JStr ''London''), (''country'', JStr ''United Kingdom''), (''admin1'', JStr [])]"
  have coords: "map_of ?coords ''error'' = None" "map_of ?coords ''lat'' = Some (JFloat (103 / 2))"
    "map_of ?coords ''lon'' = Some (JFloat (- (1 / 8)))"
    by simp_all
  have days: "(1::int) \<le> 7" "(7::int) \<le> 7" by simp_all
  have daily: "map_of sample_body ''daily'' = Some (JDict sample_daily)"
    by (simp add: sample_body_def)
  have lists:
    "map_of sample_daily ''time''
       = Some (JList [JStr ''2024-05-01'', JStr ''2024-05-02'', JStr ''2024-05-03''])"
    "map_of sample_daily ''temperature_2m_max'' = Some (JList [JFloat 15, JFloat 16, JFloat 17])"
    "map_of sample_daily ''temperature_2m_min'' = Some (JList [JFloat 5, JFloat 6, JFloat 7])"
    "map_of sample_daily ''weather_code'' = Some (JList [JInt 0, JInt 61, JInt 3])"
    "map_of sample_daily ''precipitation_sum''
       = Some (JList [JFloat 0, JFloat (5 / 2), JFloat 0])"
    "map_of sample_daily ''wind_speed_10m_max'' = Some (JList [JFloat 10, JFloat 12, JFloat 9])"
    "map_of sample_daily ''wind_direction_10m_dominant''
       = Some (JList [JInt 200, JInt 210, JInt 220])"
    by (simp_all add: sample_daily_def)
  have len3: "length [x, y, z] = 3" for x y z :: json by simp
  from forecast_clips_to_available_days
    [OF sample_coordinates [of "[]"] coords days body daily
        lists(1) len3 lists(2) len3 lists(3) len3 lists(4) len3 lists(5) len3
        lists(6) len3 lists(7) len3 dates ints]
  obtain r items q where run: "get_forecast sample_env ''London'' 7 [] = (Inr r, q)"
    and r: "map_of r ''error'' = None" "map_of r ''forecast'' = Some (JList items)"
    and len: "length items = 3"
    and ds: "map (\<lambda>item. json_path item [Key ''date'']) items
        = [Some (JStr ''2024-05-01''), Some (JStr ''2024-05-02''), Some (JStr ''2024-05-03'')]"
    by auto
  from len obtain a b c where items: "items = [a, b, c]"
    by (auto simp add: length_Suc_conv numeral_3_eq_3)
  from run r ds show ?thesis
    by (simp add: result_path_def items)
qed

text \<open>
  C2, as stated, fails: \<open>get_forecast\<close> resolves the city before it looks at the day
  count. For London and 10 days the geocoding service has been asked by the time the
  error is returned.
\<close>

theorem get_forecast_bad_days_contacts_resolver:
  "get_forecast sample_env ''London'' 10 [] =
     (Inr [(''error'', JStr ''Days must be between 1 and 7'')],
      [(geo_url, [(''name'', JStr ''London''), (''count'', JInt 1),
                  (''language'', JStr ''en''), (''format'', JStr ''json'')])])"
  by (simp add: get_forecast_def sample_coordinates error_dict_def py_dict_def)

text \<open>
  C2, amended. For every day count outside 1 to 7 the forecast service is never asked.
  The city is resolved first, exactly as \<open>get_coordinates\<close> does it, so the geocoding
  service is asked when the city is not blank; an exception or an error of that lookup
  is returned as it is, and only when the lookup succeeds is the error "Days must be
  between 1 and 7" returned. Every request sent by the operation goes to the geocoding
  service.
\<close>

theorem get_forecast_bad_days:
  assumes "d < 1 \<or> 7 < d"
  shows "get_forecast env city d reqs =
     (case get_coordinates env city reqs of
        (Inl e, reqs1) \<Rightarrow> (Inl e, reqs1)
      | (Inr coords, reqs1) \<Rightarrow>
          if map_of coords ''error'' \<noteq> None then (Inr coords, reqs1)
          else (Inr [(''error'', JStr ''Days must be between 1 and 7'')], reqs1))
     \<and> (\<forall>q \<in> set (snd (get_forecast env city d reqs)). q \<in> set reqs \<or> fst q = geo_url)"
proof -
  have first: "get_forecast env city d reqs =
     (case get_coordinates env city reqs of
        (Inl e, reqs1) \<Rightarrow> (Inl e, reqs1)
      | (Inr coords, reqs1) \<Rightarrow>
          if map_of coords ''error'' \<noteq> None then (Inr coords, reqs1)
          else (Inr [(''error'', JStr ''Days must be between 1 and 7'')], reqs1))"
    using assms
    by (auto simp add: get_forecast_def error_dict_def py_dict_def split: prod.splits sum.splits)
  have "snd (get_forecast env city d reqs) = snd (get_coordinates env city reqs)"
    unfolding first by (auto split: prod.splits sum.splits)
  moreover have "\<forall>q \<in> set (snd (get_coordinates env city reqs)). q \<in> set reqs \<or> fst q = geo_url"
    by (auto simp add: get_coordinates_def make_request_def Let_def)
  ultimately show ?thesis using first by simp
qed

theorem get_forecast_bad_days_witness:
  "(0 :: int) < 1
   \<and> get_forecast sample_env ''London'' 0 [] =
       (Inr [(''error'', JStr ''Days must be between 1 and 7'')],
        [(geo_url, [(''name'', JStr ''London''), (''count'', JInt 1),
                    (''language'', JStr ''en''), (''format'', JStr ''json'')])])
   \<and> (7 :: int) < 8
   \<and> get_forecast offline_env ''London'' 8 [] =
       (Inr [(''error'', JStr ''Failed to fetch coordinates for London'')],
        [(geo_url, [(''name'', JStr ''London''), (''count'', JInt 1),
                    (''language'', JStr ''en''), (''format'', JStr ''json'')])])"
proof -
  have off: "get_coordinates offline_env ''London'' [] =
       (Inr [(''error'', JStr ''Failed to fetch coordinates for London'')],
        [(geo_url, [(''name'', JStr ''London''), (''count'', JInt 1),
                    (''language'', JStr ''en''), (''format'', JStr ''json'')])])"
    by (simp add: get_coordinates_def strip_def py_isspace_def make_request_def offline_env_def
          sample_env_def coordinates_result_def error_dict_def py_dict_def Let_def)
  from get_forecast_bad_days [of 0 sample_env "''London''" "[]"]
    get_forecast_bad_days [of 8 offline_env "''London''" "[]"]
  show ?thesis
    by (simp add: sample_coordinates off)
qed

text \<open>The first day of the sample forecast, evaluated.\<close>

lemma sample_forecast_item:
  "forecast_item sample_env (JDict sample_daily) 0 =
     Inr (JDict
       [(''date'', JStr ''2024-05-01''),
        (''temperature'', JDict [(''max'', JFloat 15), (''min'', JFloat 5)]),
        (''weather'', JList [JDict
           [(''main'', JStr ''Clear''), (''description'', JStr ''Clear sky'')]]),
        (''precipitation'', JFloat 0),
        (''wind'', JDict [(''speed'', JFloat 10)]),
        (''dt'', JFloat 0),
        (''main'', JDict
           [(''temp'', JFloat 15), (''temp_min'', JFloat 5),
            (''temp_max'', JFloat 15), (''humidity'', JInt 65)])])"
  by (simp add: forecast_item_def sample_daily_def daily_at_def parse_date_def sample_env_def
        bindE_def py_dict_def get_description_def get_condition_def WMO_CODES_def
        py_title_def to_upper_def to_lower_def lower_letters_def upper_letters_def)

lemma sample_forecast_one_day:
  "get_forecast sample_env ''London'' 1 [] =
     (Inr [(''location'', JDict
             [(''name'', JStr ''London''), (''country'', JStr ''United Kingdom'')]),
           (''forecast'', JList [JDict
             [(''date'', JStr ''2024-05-01''),
              (''temperature'', JDict [(''max'', JFloat 15), (''min'', JFloat 5)]),
              (''weather'', JList [JDict
                 [(''main'', JStr ''Clear''), (''description'', JStr ''Clear sky'')]]),
              (''precipitation'', JFloat 0),
              (''wind'', JDict [(''speed'', JFloat 10)]),
              (''dt'', JFloat 0),
              (''main'', JDict
                 [(''temp'', JFloat 15), (''temp_min'', JFloat 5),
                  (''temp_max'', JFloat 15), (''humidity'', JInt 65)])]]),
           (''list'', JList [JDict
             [(''date'', JStr ''2024-05-01''),
              (''temperature'', JDict [(''max'', JFloat 15), (''min'', JFloat 5)]),
              (''weather'', JList [JDict
                 [(''main'', JStr ''Clear''), (''description'', JStr ''Clear sky'')]]),
              (''precipitation'', JFloat 0),
              (''wind'', JDict [(''speed'', JFloat 10)]),
              (''dt'', JFloat 0),
              (''main'', JDict
                 [(''temp'', JFloat 15), (''temp_min'', JFloat 5),
                  (''temp_max'', JFloat 15), (''humidity'', JInt 65)])]]),
           (''city'', JDict [(''name'', JStr ''London'')])],
      [(geo_url, [(''name'', JStr ''London''), (''count'', JInt 1),
                  (''language'', JStr ''en''), (''format'', JStr ''json'')]),
       (weather_url, forecast_params (JFloat (103 / 2)) (JFloat (- (1 / 8))) 1)])"
proof -
  have len: "map_of sample_daily ''time''
      = Some (JList [JStr ''2024-05-01'', JStr ''2024-05-02'', JStr ''2024-05-03''])"
    by (simp add: sample_daily_def)
  have http: "http_get sample_env weather_url params = Some (JDict sample_body)" for params
    by (simp add: sample_env_def weather_url_def geo_url_def)
  show ?thesis
    unfolding get_forecast_def
    by (simp add: sample_coordinates bindE_Inr make_request_def http forecast_response_def
          sample_body_def forecast_result_def len sample_forecast_item py_dict_def)
qed

text \<open>
  C1 does not hold of the code. Both dictionary displays write the canonical and the
  legacy value under one key, \<^verbatim>\<open>weather\<close> in the current response and in each forecast
  item, \<^verbatim>\<open>wind\<close> in each forecast item, and a dictionary keeps the value written last.
  In the sample run the current response has the legacy list under \<^verbatim>\<open>weather\<close> and no
  weather code anywhere; the first forecast item has \<open>{speed}\<close> under \<^verbatim>\<open>wind\<close> and no
  direction.
\<close>

theorem canonical_weather_overwritten:
  "result_path (get_current_weather sample_env ''London'' []) [Key ''weather'']
     = Some (JList [JDict [(''main'', JStr ''Clear''), (''description'', JStr ''Clear sky'')]])
   \<and> result_path (get_current_weather sample_env ''London'' []) [Key ''weather'', Key ''code'']
     = None
   \<and> result_path (get_forecast sample_env ''London'' 1 []) [Key ''forecast'', Idx 0, Key ''wind'']
     = Some (JDict [(''speed'', JFloat 10)])
   \<and> result_path (get_forecast sample_env ''London'' 1 [])
        [Key ''forecast'', Idx 0, Key ''wind'', Key ''direction'']
     = None
   \<and> result_path (get_forecast sample_env ''London'' 1 []) [Key ''forecast'', Idx 0, Key ''weather'']
     = Some (JList [JDict [(''main'', JStr ''Clear''), (''description'', JStr ''Clear sky'')]])"
  by (simp add: result_path_def sample_current_weather sample_forecast_one_day)

lemma dry_coordinates:
  "get_coordinates dry_env ''London'' reqs =
     (Inr [(''lat'', JFloat (103 / 2)), (''lon'', JFloat (- (1 / 8))),
           (''name'', JStr ''London''), (''country'', JStr ''United Kingdom''),
           (''admin1'', JStr [])],
      reqs @ [(geo_url, [(''name'', JStr ''London''), (''count'', JInt 1),
                         (''language'', JStr ''en''), (''format'', JStr ''json'')])])"
  by (simp add: get_coordinates_def strip_def py_isspace_def make_request_def dry_env_def
        sample_env_def sample_geo_def coordinates_result_def bindE_def py_dict_def)

text \<open>
  C5 holds of the current weather and not of the forecast. The sample \<^verbatim>\<open>current\<close> block
  has no \<^verbatim>\<open>precipitation\<close> field and the response reports 0. A \<^verbatim>\<open>daily\<close> block without
  the \<^verbatim>\<open>precipitation_sum\<close> series makes \<open>get_forecast\<close> raise \<^verbatim>\<open>KeyError\<close>: the loop
  reads \<^verbatim>\<open>daily["precipitation_sum"][i]\<close> where the current path reads
  \<^verbatim>\<open>current.get("precipitation", 0)\<close>.
\<close>

theorem forecast_without_precipitation_raises:
  "map_of sample_current ''precipitation'' = None
   \<and> result_path (get_current_weather sample_env ''London'' [])
        [Key ''current'', Key ''precipitation''] = Some (JInt 0)
   \<and> map_of dry_daily ''precipitation_sum'' = None
   \<and> fst (get_forecast dry_env ''London'' 3 []) = Inl KeyError"
proof -
  have item: "forecast_item dry_env (JDict dry_daily) 0 = Inl KeyError"
    by (simp add: forecast_item_def dry_daily_def daily_at_def parse_date_def dry_env_def
          sample_env_def bindE_def get_description_def get_condition_def WMO_CODES_def)
  have upt: "[0..<3] = [0, 1, 2]" by (simp add: upt_rec)
  have http: "http_get dry_env weather_url params = Some (JDict [(''daily'', JDict dry_daily)])"
    for params
    by (simp add: dry_env_def sample_env_def weather_url_def geo_url_def)
  have len: "map_of dry_daily ''time''
      = Some (JList [JStr ''2024-05-01'', JStr ''2024-05-02'', JStr ''2024-05-03''])"
    by (simp add: dry_daily_def)
  have "fst (get_forecast dry_env ''London'' 3 []) = Inl KeyError"
    unfolding get_forecast_def
    by (simp add: dry_coordinates bindE_def make_request_def http forecast_response_def
          forecast_result_def len upt item)
  then show ?thesis
    by (simp add: result_path_def sample_current_weather sample_current_def dry_daily_def)
qed

end
